theory Spec2Isabelle
  imports Main "HOL-Library.Word"
begin

section \<open>Go library functions used by the client\<close>

text \<open>
  Go strings are byte sequences; \<open>string\<close> (a list of \<open>char\<close>, one per byte) models them.
  \<open>strings.HasSuffix\<close> and \<open>strings.TrimSuffix\<close> (which removes the suffix at most once):
\<close>

definition HasSuffix :: "string \<Rightarrow> string \<Rightarrow> bool" where
  "HasSuffix s suffix =
     (length suffix \<le> length s \<and> drop (length s - length suffix) s = suffix)"

definition TrimSuffix :: "string \<Rightarrow> string \<Rightarrow> string" where
  "TrimSuffix s suffix =
     (if HasSuffix s suffix then take (length s - length suffix) s else s)"

text \<open>\<open>strings.Contains(s, ":")\<close>.\<close>

definition ContainsColon :: "string \<Rightarrow> bool" where
  "ContainsColon s = (CHR '':'' \<in> set s)"

text \<open>
  \<open>strings.ToUpper\<close>, on the bytes \<open>a\<close>..\<open>z\<close>. The client only compares the result with
  the tags \<open>A\<close>, \<open>AAAA\<close>, \<open>TXT\<close>, \<open>CNAME\<close> and \<open>MX\<close>; no letter of these tags is the upper
  case of a code point outside ASCII, so the comparison agrees with Go's on every input.
\<close>

definition upper_char :: "char \<Rightarrow> char" where
  "upper_char c =
     (let n = (of_char c :: int) in if 97 \<le> n \<and> n \<le> 122 then char_of (n - 32) else c)"

definition ToUpper :: "string \<Rightarrow> string" where
  "ToUpper s = map upper_char s"

subsection \<open>strconv\<close>

text \<open>
  \<open>strconv.Itoa\<close>: the decimal digits, most significant first, after a \<open>-\<close> when negative.
  Go's \<open>int\<close> is taken to be 64 bits wide; the values are HOL integers and every bound
  of the source is written out.
\<close>

definition digit_char :: "int \<Rightarrow> char" where
  "digit_char d = char_of (48 + d)"

function digits :: "int \<Rightarrow> string" where
  "digits n = (if n < 10 then [digit_char n] else digits (n div 10) @ [digit_char (n mod 10)])"
  by pat_completeness auto
termination
  by (relation "measure nat") auto

declare digits.simps [simp del]

definition Itoa :: "int \<Rightarrow> string" where
  "Itoa i = (if i < 0 then CHR ''-'' # digits (- i) else digits i)"

text \<open>
  \<open>strconv.ParseUint(s, 10, 64)\<close>. The loop reads one byte at a time: a byte that is not a
  decimal digit is a syntax error (value 0); a value beyond \<open>2^64 - 1\<close> is a range error,
  reported with the largest value as soon as the running value overflows.
\<close>

datatype NumError = ErrSyntax | ErrRange

definition maxUint64 :: int where
  "maxUint64 = 18446744073709551615"

definition is_digit :: "char \<Rightarrow> bool" where
  "is_digit c = (48 \<le> (of_char c :: int) \<and> (of_char c :: int) \<le> 57)"

definition digit_val :: "char \<Rightarrow> int" where
  "digit_val c = of_char c - 48"

fun ParseUint_loop :: "int \<Rightarrow> string \<Rightarrow> int \<times> NumError option" where
  "ParseUint_loop n [] = (n, None)"
| "ParseUint_loop n (c # cs) =
     (if \<not> is_digit c then (0, Some ErrSyntax)
      else if n \<ge> maxUint64 div 10 + 1 then (maxUint64, Some ErrRange)
      else let n1 = n * 10 + digit_val c in
        if n1 > maxUint64 then (maxUint64, Some ErrRange)
        else ParseUint_loop n1 cs)"

definition ParseUint :: "string \<Rightarrow> int \<times> NumError option" where
  "ParseUint s = (if s = [] then (0, Some ErrSyntax) else ParseUint_loop 0 s)"

text \<open>
  \<open>strconv.ParseInt(s, 10, 64)\<close>: an optional sign, then \<open>ParseUint\<close>. A syntax error gives
  0; a range error gives the nearest bound of \<open>int64\<close>, together with the error.
\<close>

definition ParseInt :: "string \<Rightarrow> int \<times> NumError option" where
  "ParseInt s =
     (if s = [] then (0, Some ErrSyntax)
      else
        let neg = (hd s = CHR ''-'');
            s1 = (if hd s = CHR ''+'' \<or> hd s = CHR ''-'' then tl s else s);
            (un, err) = ParseUint s1
        in if err = Some ErrSyntax then (0, Some ErrSyntax)
           else if \<not> neg \<and> un \<ge> 9223372036854775808 then (9223372036854775807, Some ErrRange)
           else if neg \<and> un > 9223372036854775808 then (- 9223372036854775808, Some ErrRange)
           else (if neg then - un else un, None))"

text \<open>
  \<open>strconv.Atoi\<close> on a 64-bit platform: its fast path (fewer than 19 bytes) and its slow
  path (\<open>ParseInt(s, 10, 0)\<close>) return what \<open>ParseInt(s, 10, 64)\<close> returns.
\<close>

definition Atoi :: "string \<Rightarrow> int \<times> NumError option" where
  "Atoi s = ParseInt s"

section \<open>Record names (client.go)\<close>

definition extractRecordName :: "string \<Rightarrow> string \<Rightarrow> string" where
  "extractRecordName name0 zone0 =
     (let name = TrimSuffix name0 ''.'';
          zone = TrimSuffix zone0 ''.''
      in if name = zone then ''@''
         else if HasSuffix name (''.'' @ zone) then TrimSuffix name (''.'' @ zone)
         else name)"

definition makeAbsoluteName :: "string \<Rightarrow> string \<Rightarrow> string" where
  "makeAbsoluteName name zone0 =
     (let zone = TrimSuffix zone0 ''.''
      in if name = ''@'' \<or> name = '''' then zone @ ''.''
         else if HasSuffix name ''.'' then name
         else name @ ''.'' @ zone @ ''.'')"

section \<open>The data model\<close>

subsection \<open>libdns records\<close>

text \<open>
  \<open>time.Duration\<close> is a signed 64-bit count of nanoseconds; \<open>time.Second\<close> is \<open>10^9\<close>.
  Multiplication wraps around, as Go's does.
\<close>

type_synonym Duration = "64 word"

definition Second :: Duration where
  "Second = 1000000000"

text \<open>
  \<open>int(d.Seconds())\<close>. Go computes \<open>float64(sec) + float64(nsec) / 1e9\<close> from the quotient
  \<open>sec\<close> and the remainder \<open>nsec\<close> of the duration by \<open>Second\<close>, and the conversion to \<open>int\<close>
  truncates towards zero. Both conversions to \<open>float64\<close> are exact, the division and the sum
  round to the nearest double. The sum lies between \<open>sec\<close> and \<open>sec + 1\<close>, so the result is
  one of the two; it is \<open>sec + 1\<close> exactly when the sum rounds up to it, which for \<open>sec \<ge> 1\<close>
  is when \<open>nsec / 10^9 > 1 - (H + 1) / 2^54\<close>, where \<open>H\<close> is the least power of two that
  is at least \<open>sec + 1\<close> (half the gap between \<open>sec + 1\<close> and the double before it is
  \<open>H / 2^54\<close>, and a quotient rounds to at least \<open>1 - H / 2^54\<close> when it exceeds that value
  less \<open>2^-54\<close>). For a negative duration the result is the negated result of its
  absolute value. Below \<open>2^24\<close> seconds this is the integer quotient; 16777216.999999999
  seconds give 16777217.
\<close>

function pow2_ge :: "int \<Rightarrow> int \<Rightarrow> int" where
  "pow2_ge p n = (if n \<le> p \<or> p \<le> 0 then p else pow2_ge (2 * p) n)"
  by pat_completeness auto
termination
  by (relation "measure (\<lambda>(p, n). nat (n - p))") auto

declare pow2_ge.simps [simp del]

definition Seconds_int :: "Duration \<Rightarrow> int" where
  "Seconds_int d =
     (let ns = sint d;
          m = \<bar>ns\<bar>;
          sec = m div 1000000000;
          nsec = m mod 1000000000;
          up = (1 \<le> sec \<and>
                nsec * 18014398509481984 >
                  1000000000 * (18014398509481984 - pow2_ge 1 (sec + 1) - 1));
          r = (if up then sec + 1 else sec)
      in if 0 \<le> ns then r else - r)"

text \<open>
  \<open>net/netip\<close> and \<open>libdns\<close> are outside the repository; what the translator and the
  canonical projection need of them is a parameter of the model. Of \<open>net/netip\<close>:
  \<open>Addr.String\<close>, \<open>ParseAddr\<close> (which fails on a string that is no address literal) and
  \<open>Addr.Is6\<close>. Of \<open>libdns\<close>: the data string that the method \<open>RR()\<close> gives for the address
  of an address record, and for the preference and the target of a mail-exchange record.
  (libdns gives the text of a valid address and \<open>preference target\<close>; for the zero values
  of these fields it gives the empty string.)
\<close>

record 'ip library =
  ip_String :: "'ip \<Rightarrow> string"
  ParseAddr :: "string \<Rightarrow> 'ip option"
  Is6 :: "'ip \<Rightarrow> bool"
  Address_Data :: "'ip \<Rightarrow> string"
  MX_Data :: "16 word \<Rightarrow> string \<Rightarrow> string"

text \<open>\<open>libdns.RR\<close>, the canonical projection of a record.\<close>

record RR =
  rr_Name :: string
  rr_TTL :: Duration
  rr_Type :: string
  rr_Data :: string

text \<open>
  The implementations of the interface \<open>libdns.Record\<close>, with the fields in the order of
  the structs: \<open>Address{Name, TTL, IP}\<close>, \<open>TXT{Name, TTL, Text}\<close>, \<open>CNAME{Name, TTL, Target}\<close>,
  \<open>MX{Name, TTL, Preference, Target}\<close>, and \<open>RR\<close> itself (\<open>Generic\<close>). \<open>Other\<close> stands
  for any further implementation (NS, SRV, CAA, ...), of which the client only ever calls
  the method \<open>RR()\<close>; it is given by the value of that method.
\<close>

datatype 'ip Record =
    Address string Duration 'ip
  | TXT string Duration string
  | CNAME string Duration string
  | MX string Duration "16 word" string
  | Generic RR
  | Other RR

text \<open>
  The method \<open>RR()\<close> of each implementation: the name and the TTL of the record, the type
  tag of its kind (\<open>A\<close> or \<open>AAAA\<close> by the family of the address), and its data string.
\<close>

fun RR_of :: "'ip library \<Rightarrow> 'ip Record \<Rightarrow> RR" where
  "RR_of N (Address name ttl ip) =
     \<lparr>rr_Name = name, rr_TTL = ttl,
      rr_Type = (if Is6 N ip then ''AAAA'' else ''A''), rr_Data = Address_Data N ip\<rparr>"
| "RR_of N (TXT name ttl txt) =
     \<lparr>rr_Name = name, rr_TTL = ttl, rr_Type = ''TXT'', rr_Data = txt\<rparr>"
| "RR_of N (CNAME name ttl target) =
     \<lparr>rr_Name = name, rr_TTL = ttl, rr_Type = ''CNAME'', rr_Data = target\<rparr>"
| "RR_of N (MX name ttl preference target) =
     \<lparr>rr_Name = name, rr_TTL = ttl, rr_Type = ''MX'', rr_Data = MX_Data N preference target\<rparr>"
| "RR_of N (Generic rr) = rr"
| "RR_of N (Other rr) = rr"

fun Preference :: "'ip Record \<Rightarrow> 16 word option" where
  "Preference (MX name ttl preference target) = Some preference"
| "Preference _ = None"

subsection \<open>Provider records and domains (client.go)\<close>

text \<open>The struct \<open>record\<close>; every field is a string on the wire.\<close>

record dns_record =
  rec_ID :: string
  rec_TTL :: string
  rec_Value :: string
  rec_Enabled :: string
  rec_Status :: string
  rec_UpdatedOn :: string
  rec_Name :: string
  rec_Line :: string
  rec_LineID :: string
  rec_Type :: string
  rec_Weight :: string
  rec_MX :: string
  rec_Remark :: string

text \<open>The zero value of the struct, from which a composite literal starts.\<close>

definition zero_record :: dns_record where
  "zero_record =
     \<lparr>rec_ID = '''', rec_TTL = '''', rec_Value = '''', rec_Enabled = '''', rec_Status = '''',
      rec_UpdatedOn = '''', rec_Name = '''', rec_Line = '''', rec_LineID = '''', rec_Type = '''',
      rec_Weight = '''', rec_MX = '''', rec_Remark = ''''\<rparr>"

text \<open>The struct \<open>domain\<close>; the identifier is a \<open>json.Number\<close>, a string.\<close>

record domain =
  dom_ID :: string
  dom_Name :: string
  dom_Status :: string

section \<open>The record translator (client.go)\<close>

definition getRecordType :: "'ip library \<Rightarrow> 'ip \<Rightarrow> string" where
  "getRecordType N ip =
     (let ipStr = ip_String N ip in if ContainsColon ipStr then ''AAAA'' else ''A'')"

definition convertToLibDNSRecord :: "'ip library \<Rightarrow> dns_record \<Rightarrow> string \<Rightarrow> 'ip Record" where
  "convertToLibDNSRecord N rec zone =
     (let ttl = fst (ParseInt (rec_TTL rec));
          ttlDuration = (word_of_int ttl :: Duration) * Second;
          absoluteName = makeAbsoluteName (rec_Name rec) zone;
          tag = ToUpper (rec_Type rec)
      in if tag = ''A'' \<or> tag = ''AAAA'' then
           (case ParseAddr N (rec_Value rec) of
              None \<Rightarrow>
                Generic \<lparr>rr_Name = absoluteName, rr_TTL = ttlDuration,
                         rr_Type = rec_Type rec, rr_Data = rec_Value rec\<rparr>
            | Some ip \<Rightarrow> Address absoluteName ttlDuration ip)
         else if tag = ''TXT'' then TXT absoluteName ttlDuration (rec_Value rec)
         else if tag = ''CNAME'' then CNAME absoluteName ttlDuration (rec_Value rec)
         else if tag = ''MX'' then
           (let preference =
                  (if rec_MX rec \<noteq> '''' then
                     (case Atoi (rec_MX rec) of (p, None) \<Rightarrow> p | (p, Some err) \<Rightarrow> 0)
                   else 0)
            in MX absoluteName ttlDuration (word_of_int preference) (rec_Value rec))
         else
           Generic \<lparr>rr_Name = absoluteName, rr_TTL = ttlDuration,
                    rr_Type = rec_Type rec, rr_Data = rec_Value rec\<rparr>)"

fun convertFromLibDNSRecord :: "'ip library \<Rightarrow> 'ip Record \<Rightarrow> string \<Rightarrow> dns_record" where
  "convertFromLibDNSRecord N (Address name ttl ip) zone =
     zero_record\<lparr>rec_Name := extractRecordName name zone, rec_Type := getRecordType N ip,
                 rec_Value := ip_String N ip, rec_TTL := Itoa (Seconds_int ttl)\<rparr>"
| "convertFromLibDNSRecord N (TXT name ttl txt) zone =
     zero_record\<lparr>rec_Name := extractRecordName name zone, rec_Type := ''TXT'',
                 rec_Value := txt, rec_TTL := Itoa (Seconds_int ttl)\<rparr>"
| "convertFromLibDNSRecord N (CNAME name ttl target) zone =
     zero_record\<lparr>rec_Name := extractRecordName name zone, rec_Type := ''CNAME'',
                 rec_Value := target, rec_TTL := Itoa (Seconds_int ttl)\<rparr>"
| "convertFromLibDNSRecord N (MX name ttl preference target) zone =
     zero_record\<lparr>rec_Name := extractRecordName name zone, rec_Type := ''MX'',
                 rec_Value := target, rec_MX := Itoa (uint preference),
                 rec_TTL := Itoa (Seconds_int ttl)\<rparr>"
| "convertFromLibDNSRecord N (Generic r) zone =
     zero_record\<lparr>rec_Name := extractRecordName (rr_Name r) zone, rec_Type := rr_Type r,
                 rec_Value := rr_Data r, rec_TTL := Itoa (Seconds_int (rr_TTL r))\<rparr>"
| "convertFromLibDNSRecord N (Other r) zone =
     zero_record\<lparr>rec_Name := extractRecordName (rr_Name r) zone, rec_Type := rr_Type r,
                 rec_Value := rr_Data r, rec_TTL := Itoa (Seconds_int (rr_TTL r))\<rparr>"

subsection \<open>Vocabulary of the properties\<close>

text \<open>
  A fully-qualified name lies in the zone when it is the apex (the zone followed by a dot)
  or a relative name followed by \<open>.zone.\<close>, the relative name being non-empty, other than
  the apex marker \<open>@\<close> and not itself dot-terminated.
\<close>

definition in_zone :: "string \<Rightarrow> string \<Rightarrow> bool" where
  "in_zone name zone0 =
     (let zone = TrimSuffix zone0 ''.''
      in name = zone @ ''.'' \<or>
         (HasSuffix name (''.'' @ zone @ ''.'') \<and>
          (let label = TrimSuffix name (''.'' @ zone @ ''.'')
           in label \<noteq> '''' \<and> label \<noteq> ''@'' \<and> \<not> HasSuffix label ''.'')))"

text \<open>A duration of a whole number of seconds.\<close>

definition whole_seconds :: "Duration \<Rightarrow> bool" where
  "whole_seconds d = (sint d mod 1000000000 = 0)"

text \<open>
  The records that the translator hands back. An address record does when its address is
  valid, that is, when its text parses back to it. A text, canonical-name or mail-exchange
  record always does. A generic record (and a record of any other implementation, which
  is translated through its projection) does when the record that its type tag selects on
  the way back has its projection: a tag that upper-cases to \<open>A\<close> or \<open>AAAA\<close> selects an
  address record when the data parses as an address, and the generic record itself when
  it does not; a tag that upper-cases to \<open>TXT\<close> or \<open>CNAME\<close> selects a text or canonical-name
  record, whose tag is in upper case; a tag that upper-cases to \<open>MX\<close> selects a
  mail-exchange record of preference 0 whose target is the whole data string; any other
  tag selects the generic record.
\<close>

definition generic_returns :: "'ip library \<Rightarrow> RR \<Rightarrow> bool" where
  "generic_returns N r =
     (let u = ToUpper (rr_Type r)
      in if u = ''A'' \<or> u = ''AAAA'' then
           (case ParseAddr N (rr_Data r) of
              None \<Rightarrow> True
            | Some ip \<Rightarrow>
                rr_Type r = (if Is6 N ip then ''AAAA'' else ''A'') \<and>
                Address_Data N ip = rr_Data r)
         else if u = ''TXT'' \<or> u = ''CNAME'' then rr_Type r = u
         else if u = ''MX'' then rr_Type r = ''MX'' \<and> MX_Data N 0 (rr_Data r) = rr_Data r
         else True)"

fun returns :: "'ip library \<Rightarrow> 'ip Record \<Rightarrow> bool" where
  "returns N (Address name ttl ip) = (ParseAddr N (ip_String N ip) = Some ip)"
| "returns N (Generic r) = generic_returns N r"
| "returns N (Other r) = generic_returns N r"
| "returns N _ = True"

text \<open>
  A small instance of the library operations, for concrete evaluation: an address is
  given by its text, every text parses, the family is read off the colon, and the data
  strings are the text of the address and \<open>preference target\<close> (empty for preference 0
  with an empty target).
\<close>

definition text_netip :: "string library" where
  "text_netip =
     \<lparr>ip_String = (\<lambda>ip. ip), ParseAddr = Some, Is6 = ContainsColon,
      Address_Data = (\<lambda>ip. ip),
      MX_Data = (\<lambda>preference target.
        if preference = 0 \<and> target = '''' then ''''
        else Itoa (uint preference) @ '' '' @ target)\<rparr>"

section \<open>The provider protocol client (client.go)\<close>

subsection \<open>The transport and the state of a client\<close>

text \<open>
  A request is given by its endpoint and its form parameters (the method, the base URL and
  the headers are constants of the client).
\<close>

record request =
  req_endpoint :: string
  req_params :: "string \<rightharpoonup> string"

text \<open>
  The body of a response is given by what \<open>encoding/json\<close> makes of it at each of the four
  types the client decodes into; \<open>None\<close> is a decoding error. Of \<open>apiResponse\<close> the code and
  the message of the status are kept, of the other three the part the client reads.
\<close>

record body =
  as_apiResponse :: "(string \<times> string) option"
  as_domainListResponse :: "domain list option"
  as_recordListResponse :: "dns_record list option"
  as_recordResponse :: "dns_record option"

text \<open>
  What happens to one POST: \<open>http.NewRequestWithContext\<close> fails, \<open>httpClient.Do\<close> fails
  (a network failure, a timeout, a cancelled context), reading the body fails, or a response
  arrives with its status code and body.
\<close>

datatype http_result =
    NewRequestError
  | DoError
  | ReadError
  | Response int body

text \<open>
  The world outside the client decides the result of a request from the requests attempted
  so far, the last of which is the current one.
\<close>

type_synonym transport = "request list \<Rightarrow> http_result"

text \<open>
  The struct \<open>Client\<close>. The field \<open>sent\<close> is not in the source: it is the history of the
  requests attempted through \<open>httpClient\<close>, kept to state what a call sends. The mutex is
  not modelled; the calls on a client are taken one after the other.
\<close>

record Client =
  loginToken :: string
  domainList :: "domain list"
  sent :: "request list"

definition newClient :: "string \<Rightarrow> Client" where
  "newClient token = \<lparr>loginToken = token, domainList = [], sent = []\<rparr>"

subsection \<open>Errors\<close>

text \<open>
  The errors of the client are built by \<open>fmt.Errorf\<close>. \<open>Wrap m e\<close> is \<open>fmt.Errorf(m + ": %w", e)\<close>;
  the first four constructors stand for the errors of the library calls, the others for the
  messages \<open>HTTP error: %d %s\<close>, \<open>API error: %s - %s\<close>, \<open>domain %s not found in DNSPod account\<close>
  and \<open>record not found: %s %s %s\<close>.
\<close>

datatype error =
    NewRequestErr
  | NetErr
  | ReadErr
  | JSONErr
  | HTTPError int
  | APIError string string
  | DomainNotFound string
  | RecordNotFound string string string
  | Wrap string error

subsection \<open>makeRequest\<close>

definition successCode :: string where
  "successCode = ''1''"

text \<open>The common parameters that \<open>makeRequest\<close> adds to those of the caller.\<close>

definition common_params :: "Client \<Rightarrow> (string \<rightharpoonup> string) \<Rightarrow> (string \<rightharpoonup> string)" where
  "common_params c params =
     params(''login_token'' \<mapsto> loginToken c, ''format'' \<mapsto> ''json'',
            ''error_on_empty'' \<mapsto> ''no'', ''lang'' \<mapsto> ''cn'')"

text \<open>The request that a call of \<open>makeRequest\<close> builds in the state \<open>c\<close>.\<close>

definition request_of :: "Client \<Rightarrow> string \<Rightarrow> (string \<rightharpoonup> string) \<Rightarrow> request" where
  "request_of c endpoint params = \<lparr>req_endpoint = endpoint, req_params = common_params c params\<rparr>"

text \<open>
  The first half of \<open>makeRequest\<close>: the request is built and attempted, and the body read.
\<close>

definition post_form ::
  "transport \<Rightarrow> string \<Rightarrow> (string \<rightharpoonup> string) \<Rightarrow> Client \<Rightarrow> http_result \<times> Client" where
  "post_form T endpoint params c =
     (let req = request_of c endpoint params;
          c' = c\<lparr>sent := sent c @ [req]\<rparr>
      in (T (sent c'), c'))"

definition makeRequest ::
  "transport \<Rightarrow> string \<Rightarrow> (string \<rightharpoonup> string) \<Rightarrow> Client \<Rightarrow> (error + body) \<times> Client" where
  "makeRequest T endpoint params c =
     (case post_form T endpoint params c of
        (NewRequestError, c') \<Rightarrow> (Inl (Wrap ''failed to create request'' NewRequestErr), c')
      | (DoError, c') \<Rightarrow> (Inl (Wrap ''failed to make request'' NetErr), c')
      | (ReadError, c') \<Rightarrow> (Inl (Wrap ''failed to read response'' ReadErr), c')
      | (Response StatusCode b, c') \<Rightarrow>
          if StatusCode \<noteq> 200 then (Inl (HTTPError StatusCode), c')
          else (case as_apiResponse b of
                  None \<Rightarrow> (Inl (Wrap ''failed to parse response'' JSONErr), c')
                | Some (code, message) \<Rightarrow>
                    if code \<noteq> successCode then (Inl (APIError code message), c')
                    else (Inr b, c')))"

subsection \<open>Domains\<close>

text \<open>
  \<open>getDomains\<close>. Without concurrent callers the check under the read lock and the second
  check under the write lock see the same list, so they are one test here.
\<close>

definition getDomains :: "transport \<Rightarrow> Client \<Rightarrow> (error + domain list) \<times> Client" where
  "getDomains T c =
     (if length (domainList c) > 0 then (Inr (domainList c), c)
      else
        (case makeRequest T ''Domain.List'' Map.empty c of
           (Inl err, c') \<Rightarrow> (Inl (Wrap ''failed to list domains'' err), c')
         | (Inr b, c') \<Rightarrow>
             (case as_domainListResponse b of
                None \<Rightarrow> (Inl (Wrap ''failed to parse domain list response'' JSONErr), c')
              | Some domains \<Rightarrow> (Inr domains, c'\<lparr>domainList := domains\<rparr>))))"

text \<open>The search loop of \<open>getDomainID\<close>.\<close>

fun find_domain :: "string \<Rightarrow> domain list \<Rightarrow> string option" where
  "find_domain domainName [] = None"
| "find_domain domainName (d # ds) =
     (if dom_Name d = domainName then Some (dom_ID d) else find_domain domainName ds)"

definition getDomainID :: "transport \<Rightarrow> string \<Rightarrow> Client \<Rightarrow> (error + string) \<times> Client" where
  "getDomainID T domainName0 c =
     (let domainName = TrimSuffix domainName0 ''.''
      in case getDomains T c of
           (Inl err, c') \<Rightarrow> (Inl err, c')
         | (Inr domains, c') \<Rightarrow>
             (case find_domain domainName domains of
                Some domainID \<Rightarrow> (Inr domainID, c')
              | None \<Rightarrow> (Inl (DomainNotFound domainName), c')))"

subsection \<open>Records\<close>

definition listRecords ::
  "transport \<Rightarrow> string \<Rightarrow> Client \<Rightarrow> (error + dns_record list) \<times> Client" where
  "listRecords T domainID c =
     (case makeRequest T ''Record.List'' [''domain_id'' \<mapsto> domainID] c of
        (Inl err, c') \<Rightarrow> (Inl (Wrap ''failed to list records'' err), c')
      | (Inr b, c') \<Rightarrow>
          (case as_recordListResponse b of
             None \<Rightarrow> (Inl (Wrap ''failed to parse record list response'' JSONErr), c')
           | Some records \<Rightarrow> (Inr records, c')))"

text \<open>The routing line sent with every record: the provider's default line, in UTF-8.\<close>

definition default_line :: string where
  "default_line = [CHR 0xE9, CHR 0xBB, CHR 0x98, CHR 0xE8, CHR 0xAE, CHR 0xA4]"

text \<open>The parameters of \<open>Record.Create\<close> and of \<open>Record.Modify\<close>.\<close>

definition create_params :: "string \<Rightarrow> dns_record \<Rightarrow> (string \<rightharpoonup> string)" where
  "create_params domainID rec =
     (let params = [''domain_id'' \<mapsto> domainID, ''sub_domain'' \<mapsto> rec_Name rec,
                    ''record_type'' \<mapsto> rec_Type rec, ''record_line'' \<mapsto> default_line,
                    ''value'' \<mapsto> rec_Value rec];
          params = (if rec_TTL rec \<noteq> '''' then params(''ttl'' \<mapsto> rec_TTL rec)
                    else params(''ttl'' \<mapsto> ''600''))
      in if rec_MX rec \<noteq> '''' then params(''mx'' \<mapsto> rec_MX rec) else params)"

definition update_params :: "string \<Rightarrow> string \<Rightarrow> dns_record \<Rightarrow> (string \<rightharpoonup> string)" where
  "update_params domainID recordID rec =
     (let params = [''domain_id'' \<mapsto> domainID, ''record_id'' \<mapsto> recordID,
                    ''sub_domain'' \<mapsto> rec_Name rec, ''record_type'' \<mapsto> rec_Type rec,
                    ''record_line'' \<mapsto> default_line, ''value'' \<mapsto> rec_Value rec];
          params = (if rec_TTL rec \<noteq> '''' then params(''ttl'' \<mapsto> rec_TTL rec) else params)
      in if rec_MX rec \<noteq> '''' then params(''mx'' \<mapsto> rec_MX rec) else params)"

definition createRecord ::
  "transport \<Rightarrow> string \<Rightarrow> dns_record \<Rightarrow> Client \<Rightarrow> (error + dns_record) \<times> Client" where
  "createRecord T domainID rec c =
     (case makeRequest T ''Record.Create'' (create_params domainID rec) c of
        (Inl err, c') \<Rightarrow> (Inl (Wrap ''failed to create record'' err), c')
      | (Inr b, c') \<Rightarrow>
          (case as_recordResponse b of
             None \<Rightarrow> (Inl (Wrap ''failed to parse create record response'' JSONErr), c')
           | Some r \<Rightarrow> (Inr r, c')))"

definition updateRecord ::
  "transport \<Rightarrow> string \<Rightarrow> string \<Rightarrow> dns_record \<Rightarrow> Client \<Rightarrow> (error + dns_record) \<times> Client" where
  "updateRecord T domainID recordID rec c =
     (case makeRequest T ''Record.Modify'' (update_params domainID recordID rec) c of
        (Inl err, c') \<Rightarrow> (Inl (Wrap ''failed to update record'' err), c')
      | (Inr b, c') \<Rightarrow>
          (case as_recordResponse b of
             None \<Rightarrow> (Inl (Wrap ''failed to parse update record response'' JSONErr), c')
           | Some r \<Rightarrow> (Inr r, c')))"

definition deleteRecord ::
  "transport \<Rightarrow> string \<Rightarrow> string \<Rightarrow> Client \<Rightarrow> error option \<times> Client" where
  "deleteRecord T domainID recordID c =
     (case makeRequest T ''Record.Remove'' [''domain_id'' \<mapsto> domainID, ''record_id'' \<mapsto> recordID] c of
        (Inl err, c') \<Rightarrow> (Some (Wrap ''failed to delete record'' err), c')
      | (Inr b, c') \<Rightarrow> (None, c'))"

subsection \<open>Vocabulary of the properties\<close>

text \<open>
  The transport errors of the specification: a network failure (the request could not be
  made, or its body not read) or an HTTP status error, under any wrapping.
\<close>

fun is_TransportError :: "error \<Rightarrow> bool" where
  "is_TransportError NetErr = True"
| "is_TransportError ReadErr = True"
| "is_TransportError (HTTPError StatusCode) = True"
| "is_TransportError (Wrap m e) = is_TransportError e"
| "is_TransportError _ = False"

definition is_2xx :: "int \<Rightarrow> bool" where
  "is_2xx StatusCode = (200 \<le> StatusCode \<and> StatusCode < 300)"

text \<open>A response body that decodes at every type, with the given status.\<close>

definition body_of ::
  "string \<Rightarrow> string \<Rightarrow> domain list \<Rightarrow> dns_record list \<Rightarrow> dns_record \<Rightarrow> body" where
  "body_of code message domains records r =
     \<lparr>as_apiResponse = Some (code, message), as_domainListResponse = Some domains,
      as_recordListResponse = Some records, as_recordResponse = Some r\<rparr>"

text \<open>
  The calls on a client, to speak of what any later sequence of calls sends, and the number
  of \<open>Domain.List\<close> requests attempted so far.
\<close>

datatype client_call =
    GetDomainID string
  | ListRecords string
  | CreateRecord string dns_record
  | UpdateRecord string string dns_record
  | DeleteRecord string string

fun run_call :: "transport \<Rightarrow> client_call \<Rightarrow> Client \<Rightarrow> Client" where
  "run_call T (GetDomainID zone) c = snd (getDomainID T zone c)"
| "run_call T (ListRecords domainID) c = snd (listRecords T domainID c)"
| "run_call T (CreateRecord domainID rec) c = snd (createRecord T domainID rec c)"
| "run_call T (UpdateRecord domainID recordID rec) c = snd (updateRecord T domainID recordID rec c)"
| "run_call T (DeleteRecord domainID recordID) c = snd (deleteRecord T domainID recordID c)"

fun run_calls :: "transport \<Rightarrow> client_call list \<Rightarrow> Client \<Rightarrow> Client" where
  "run_calls T [] c = c"
| "run_calls T (k # ks) c = run_calls T ks (run_call T k c)"

definition Domain_List_count :: "Client \<Rightarrow> nat" where
  "Domain_List_count c = length (filter (\<lambda>r. req_endpoint r = ''Domain.List'') (sent c))"

section \<open>The reconciliation engine (provider.go)\<close>

text \<open>
  The struct \<open>Provider\<close>. Its client is created on first use; the operations work on the
  client through the pointer, so each of them leaves its final client in the provider.
\<close>

record Provider =
  LoginToken :: string
  client :: "Client option"

definition getClient :: "Provider \<Rightarrow> Client" where
  "getClient p = (case client p of None \<Rightarrow> newClient (LoginToken p) | Some c \<Rightarrow> c)"

text \<open>
  The result of an operation: the records returned and the error, \<open>None\<close> for \<open>nil\<close>.
\<close>

type_synonym 'ip outcome = "'ip Record list \<times> error option"

subsection \<open>DeleteRecords\<close>

text \<open>
  The inner loop of \<open>DeleteRecords\<close>: the identifier of the first existing record whose
  translation has the name, the type and the data of \<open>rr\<close>; the zero value of \<open>recordID\<close>,
  the empty string, when the loop ends without a match.
\<close>

fun delete_recordID :: "'ip library \<Rightarrow> string \<Rightarrow> RR \<Rightarrow> dns_record list \<Rightarrow> string" where
  "delete_recordID N zone rr [] = ''''"
| "delete_recordID N zone rr (existingRec # rest) =
     (let existingRR = RR_of N (convertToLibDNSRecord N existingRec zone)
      in if rr_Name existingRR = rr_Name rr \<and> rr_Type existingRR = rr_Type rr \<and>
            rr_Data existingRR = rr_Data rr
         then rec_ID existingRec
         else delete_recordID N zone rr rest)"

text \<open>The outer loop, over the input records, with \<open>deletedRecords\<close> as accumulator.\<close>

fun DeleteRecords_loop ::
  "'ip library \<Rightarrow> transport \<Rightarrow> string \<Rightarrow> string \<Rightarrow> dns_record list \<Rightarrow> 'ip Record list \<Rightarrow>
   'ip Record list \<Rightarrow> Client \<Rightarrow> 'ip outcome \<times> Client" where
  "DeleteRecords_loop N T zone domainID existingRecords [] deletedRecords c =
     ((deletedRecords, None), c)"
| "DeleteRecords_loop N T zone domainID existingRecords (libRec # records) deletedRecords c =
     (let rr = RR_of N libRec;
          recordID = delete_recordID N zone rr existingRecords
      in if recordID = '''' then
           ((deletedRecords, Some (RecordNotFound (rr_Name rr) (rr_Type rr) (rr_Data rr))), c)
         else
           (case deleteRecord T domainID recordID c of
              (Some err, c') \<Rightarrow>
                ((deletedRecords, Some (Wrap (''failed to delete record '' @ rr_Name rr) err)), c')
            | (None, c') \<Rightarrow>
                DeleteRecords_loop N T zone domainID existingRecords records
                  (deletedRecords @ [libRec]) c'))"

definition DeleteRecords ::
  "'ip library \<Rightarrow> transport \<Rightarrow> string \<Rightarrow> 'ip Record list \<Rightarrow> Provider \<Rightarrow> 'ip outcome \<times> Provider" where
  "DeleteRecords N T zone records p =
     (case getDomainID T zone (getClient p) of
        (Inl err, c1) \<Rightarrow>
          (([], Some (Wrap (''failed to get domain ID for zone '' @ zone) err)),
           p\<lparr>client := Some c1\<rparr>)
      | (Inr domainID, c1) \<Rightarrow>
          (case listRecords T domainID c1 of
             (Inl err, c2) \<Rightarrow>
               (([], Some (Wrap ''failed to list existing records'' err)), p\<lparr>client := Some c2\<rparr>)
           | (Inr existingRecords, c2) \<Rightarrow>
               (case DeleteRecords_loop N T zone domainID existingRecords records [] c2 of
                  (res, c3) \<Rightarrow> (res, p\<lparr>client := Some c3\<rparr>))))"

subsection \<open>SetRecords\<close>

text \<open>
  The inner loop of \<open>SetRecords\<close>: as above, but the translation is compared by name and
  type only.
\<close>

fun set_recordID :: "'ip library \<Rightarrow> string \<Rightarrow> RR \<Rightarrow> dns_record list \<Rightarrow> string" where
  "set_recordID N zone rr [] = ''''"
| "set_recordID N zone rr (existingRec # rest) =
     (let existingRR = RR_of N (convertToLibDNSRecord N existingRec zone)
      in if rr_Name existingRR = rr_Name rr \<and> rr_Type existingRR = rr_Type rr
         then rec_ID existingRec
         else set_recordID N zone rr rest)"

fun SetRecords_loop ::
  "'ip library \<Rightarrow> transport \<Rightarrow> string \<Rightarrow> string \<Rightarrow> dns_record list \<Rightarrow> 'ip Record list \<Rightarrow>
   'ip Record list \<Rightarrow> Client \<Rightarrow> 'ip outcome \<times> Client" where
  "SetRecords_loop N T zone domainID existingRecords [] setRecords c =
     ((setRecords, None), c)"
| "SetRecords_loop N T zone domainID existingRecords (libRec # records) setRecords c =
     (let rr = RR_of N libRec;
          recordID = set_recordID N zone rr existingRecords;
          rec = convertFromLibDNSRecord N libRec zone
      in if recordID \<noteq> '''' then
           (case updateRecord T domainID recordID rec c of
              (Inl err, c') \<Rightarrow>
                ((setRecords, Some (Wrap (''failed to update record '' @ rr_Name rr) err)), c')
            | (Inr updatedRec, c') \<Rightarrow>
                SetRecords_loop N T zone domainID existingRecords records
                  (setRecords @ [convertToLibDNSRecord N updatedRec zone]) c')
         else
           (case createRecord T domainID rec c of
              (Inl err, c') \<Rightarrow>
                ((setRecords, Some (Wrap (''failed to create record '' @ rr_Name rr) err)), c')
            | (Inr createdRec, c') \<Rightarrow>
                SetRecords_loop N T zone domainID existingRecords records
                  (setRecords @ [convertToLibDNSRecord N createdRec zone]) c'))"

definition SetRecords ::
  "'ip library \<Rightarrow> transport \<Rightarrow> string \<Rightarrow> 'ip Record list \<Rightarrow> Provider \<Rightarrow> 'ip outcome \<times> Provider" where
  "SetRecords N T zone records p =
     (case getDomainID T zone (getClient p) of
        (Inl err, c1) \<Rightarrow>
          (([], Some (Wrap (''failed to get domain ID for zone '' @ zone) err)),
           p\<lparr>client := Some c1\<rparr>)
      | (Inr domainID, c1) \<Rightarrow>
          (case listRecords T domainID c1 of
             (Inl err, c2) \<Rightarrow>
               (([], Some (Wrap ''failed to list existing records'' err)), p\<lparr>client := Some c2\<rparr>)
           | (Inr existingRecords, c2) \<Rightarrow>
               (case SetRecords_loop N T zone domainID existingRecords records [] c2 of
                  (res, c3) \<Rightarrow> (res, p\<lparr>client := Some c3\<rparr>))))"

subsection \<open>Vocabulary of the properties\<close>

text \<open>
  The two comparisons of the inner loops, as predicates on an existing record: its
  translation agrees with \<open>rr\<close> in name and type, or in name, type and data. Strings are
  compared byte by byte, hence case-sensitively.
\<close>

definition same_name_type :: "'ip library \<Rightarrow> string \<Rightarrow> RR \<Rightarrow> dns_record \<Rightarrow> bool" where
  "same_name_type N zone rr e =
     (let existingRR = RR_of N (convertToLibDNSRecord N e zone)
      in rr_Name existingRR = rr_Name rr \<and> rr_Type existingRR = rr_Type rr)"

definition same_name_type_data :: "'ip library \<Rightarrow> string \<Rightarrow> RR \<Rightarrow> dns_record \<Rightarrow> bool" where
  "same_name_type_data N zone rr e =
     (let existingRR = RR_of N (convertToLibDNSRecord N e zone)
      in rr_Name existingRR = rr_Name rr \<and> rr_Type existingRR = rr_Type rr \<and>
         rr_Data existingRR = rr_Data rr)"

section \<open>Example data\<close>

text \<open>
  The zone \<open>example.com\<close> with the provider's identifier 42, some of its records, a
  transport that answers every request with success and the given record list, and a
  provider that has not been used yet.
\<close>

definition ex_zone :: string where
  "ex_zone = ''example.com''"

definition ex_domain :: domain where
  "ex_domain = \<lparr>dom_ID = ''42'', dom_Name = ''example.com'', dom_Status = ''enable''\<rparr>"

definition ex_www1 :: dns_record where
  "ex_www1 = zero_record\<lparr>rec_ID := ''7'', rec_Name := ''www'', rec_Type := ''A'',
                         rec_Value := ''192.0.2.1'', rec_TTL := ''600''\<rparr>"


definition ex_noid :: dns_record where
  "ex_noid = zero_record\<lparr>rec_ID := '''', rec_Name := ''www'', rec_Type := ''A'',
                         rec_Value := ''192.0.2.1'', rec_TTL := ''600''\<rparr>"

definition ex_greet :: dns_record where
  "ex_greet = zero_record\<lparr>rec_ID := ''9'', rec_Name := ''greet'', rec_Type := ''TXT'',
                          rec_Value := ''Hello'', rec_TTL := ''600''\<rparr>"

definition ex_transport :: "dns_record list \<Rightarrow> transport" where
  "ex_transport existing = (\<lambda>h. Response 200 (body_of ''1'' ''ok'' [ex_domain] existing ex_www1))"

definition ex_client :: Client where
  "ex_client = newClient ''id,token''"

definition ex_provider :: Provider where
  "ex_provider = \<lparr>LoginToken = ''id,token'', client = None\<rparr>"

section \<open>Facts about the library functions\<close>

lemma HasSuffix_append [simp]: "HasSuffix (a @ b) b"
  by (simp add: HasSuffix_def)

lemma TrimSuffix_append [simp]: "TrimSuffix (a @ b) b = a"
  by (simp add: TrimSuffix_def)

lemma HasSuffix_dot: "HasSuffix s ''.'' \<longleftrightarrow> s \<noteq> [] \<and> last s = CHR ''.''"
  by (cases s rule: rev_cases) (simp_all add: HasSuffix_def)

lemma TrimSuffix_no_suffix: "\<not> HasSuffix s t \<Longrightarrow> TrimSuffix s t = s"
  by (simp add: TrimSuffix_def)

lemma is_digit_digit_char: "0 \<le> d \<Longrightarrow> d < 10 \<Longrightarrow> is_digit (digit_char d)"
  by (simp add: is_digit_def digit_char_def)

lemma digit_val_digit_char: "0 \<le> d \<Longrightarrow> d < 10 \<Longrightarrow> digit_val (digit_char d) = d"
  by (simp add: digit_val_def digit_char_def)

lemma ParseUint_loop_snoc:
  "ParseUint_loop a (xs @ [c]) =
     (case ParseUint_loop a xs of (m, None) \<Rightarrow> ParseUint_loop m [c] | (m, Some e) \<Rightarrow> (m, Some e))"
  by (induction xs arbitrary: a) (simp_all add: Let_def)

lemma ParseUint_loop_digits:
  "0 \<le> n \<Longrightarrow> n \<le> maxUint64 \<Longrightarrow> ParseUint_loop 0 (digits n) = (n, None)"
proof (induction n rule: digits.induct)
  case (1 n)
  show ?case
  proof (cases "n < 10")
    case True
    with "1.prems" show ?thesis
      by (simp add: digits.simps [of n] is_digit_digit_char digit_val_digit_char maxUint64_def)
  next
    case False
    with "1.prems" have ih: "ParseUint_loop 0 (digits (n div 10)) = (n div 10, None)"
      using "1.IH" by simp
    have d: "is_digit (digit_char (n mod 10))" "digit_val (digit_char (n mod 10)) = n mod 10"
      by (simp_all add: is_digit_digit_char digit_val_digit_char)
    from False "1.prems" show ?thesis
      by (simp add: digits.simps [of n] ParseUint_loop_snoc ih d maxUint64_def)
  qed
qed

lemma digits_hd: "0 \<le> n \<Longrightarrow> digits n \<noteq> [] \<and> is_digit (hd (digits n))"
proof (induction n rule: digits.induct)
  case (1 n)
  show ?case
  proof (cases "n < 10")
    case True
    with "1.prems" show ?thesis
      by (simp add: digits.simps [of n] is_digit_digit_char)
  next
    case False
    with "1.prems" "1.IH" show ?thesis
      by (simp add: digits.simps [of n])
  qed
qed

lemma is_digit_not_sign: "is_digit c \<Longrightarrow> c \<noteq> CHR ''-'' \<and> c \<noteq> CHR ''+''"
  by (auto simp: is_digit_def)

lemma ParseInt_Itoa:
  assumes "- 9223372036854775808 \<le> k" and "k \<le> 9223372036854775807"
  shows "ParseInt (Itoa k) = (k, None)"
proof (cases "k < 0")
  case True
  with assms have "ParseUint_loop 0 (digits (- k)) = (- k, None)"
    by (intro ParseUint_loop_digits) (simp_all add: maxUint64_def)
  moreover from True have "digits (- k) \<noteq> []"
    using digits_hd [of "- k"] by simp
  ultimately show ?thesis
    using True assms by (simp add: ParseInt_def Itoa_def ParseUint_def)
next
  case False
  with assms have p: "ParseUint_loop 0 (digits k) = (k, None)"
    by (intro ParseUint_loop_digits) (simp_all add: maxUint64_def)
  from False have h: "digits k \<noteq> []" "hd (digits k) \<noteq> CHR ''-''" "hd (digits k) \<noteq> CHR ''+''"
    using digits_hd [of k] is_digit_not_sign [of "hd (digits k)"] by simp_all
  show ?thesis
    using False assms p h by (simp add: ParseInt_def Itoa_def ParseUint_def)
qed

section \<open>Facts about names and the translator\<close>

lemma HasSuffix_decomp: "HasSuffix s t \<Longrightarrow> s = TrimSuffix s t @ t"
  by (auto simp: HasSuffix_def TrimSuffix_def) (metis append_take_drop_id)

lemma TrimSuffix_snoc_dot [simp]: "TrimSuffix (a @ CHR ''.'' # b @ ''.'') ''.'' = a @ CHR ''.'' # b"
  using TrimSuffix_append [of "a @ CHR ''.'' # b" "''.''"] by simp

lemma TrimSuffix_dot [simp]: "TrimSuffix (a @ ''.'') ''.'' = a"
  using TrimSuffix_append [of a "''.''"] by simp

lemma extract_apex: "extractRecordName (TrimSuffix zone ''.'' @ ''.'') zone = ''@''"
  by (simp add: extractRecordName_def)

lemma extract_sub:
  "extractRecordName (label @ ''.'' @ TrimSuffix zone ''.'' @ ''.'') zone = label"
proof -
  let ?z = "TrimSuffix zone ''.''"
  have ne: "label @ CHR ''.'' # ?z \<noteq> ?z"
  proof
    assume "label @ CHR ''.'' # ?z = ?z"
    then have "length (label @ CHR ''.'' # ?z) = length ?z" by simp
    then show False by simp
  qed
  have hs: "HasSuffix (label @ CHR ''.'' # ?z) (CHR ''.'' # ?z)"
    by (rule HasSuffix_append)
  have ts: "TrimSuffix (label @ CHR ''.'' # ?z) (CHR ''.'' # ?z) = label"
    by (rule TrimSuffix_append)
  show ?thesis
    by (simp add: extractRecordName_def ne hs ts)
qed

lemma absolute_of_relative:
  assumes "in_zone name zone"
  shows "makeAbsoluteName (extractRecordName name zone) zone = name"
proof -
  let ?z = "TrimSuffix zone ''.''"
  let ?l = "TrimSuffix name (''.'' @ ?z @ ''.'')"
  from assms have "name = ?z @ ''.'' \<or>
      (name = ?l @ ''.'' @ ?z @ ''.'' \<and> ?l \<noteq> '''' \<and> ?l \<noteq> ''@'' \<and> \<not> HasSuffix ?l ''.'')"
    using HasSuffix_decomp [of name "''.'' @ ?z @ ''.''"] by (auto simp: in_zone_def Let_def)
  then show ?thesis
  proof
    assume a: "name = ?z @ ''.''"
    show ?thesis
      by (subst a, subst extract_apex) (simp add: makeAbsoluteName_def a)
  next
    assume s: "name = ?l @ ''.'' @ ?z @ ''.'' \<and> ?l \<noteq> '''' \<and> ?l \<noteq> ''@'' \<and> \<not> HasSuffix ?l ''.''"
    then have e: "extractRecordName name zone = ?l"
      using extract_sub [of ?l zone] by simp
    from s show ?thesis
      unfolding e by (simp add: makeAbsoluteName_def)
  qed
qed

lemma relative_of_absolute:
  assumes "rel \<noteq> ''''" and "\<not> HasSuffix rel ''.''"
  shows "extractRecordName (makeAbsoluteName rel zone) zone = rel"
proof (cases "rel = ''@''")
  case True
  then show ?thesis
    using extract_apex [of zone] by (simp add: makeAbsoluteName_def)
next
  case False
  with assms have "makeAbsoluteName rel zone = rel @ ''.'' @ TrimSuffix zone ''.'' @ ''.''"
    by (simp add: makeAbsoluteName_def)
  then show ?thesis
    using extract_sub [of rel zone] by simp
qed

lemma pow2_ge_bound: "0 < p \<Longrightarrow> p \<le> 2 * n \<Longrightarrow> pow2_ge p n \<le> 2 * n"
proof (induction p n rule: pow2_ge.induct)
  case (1 p n)
  show ?case
  proof (cases "n \<le> p \<or> p \<le> 0")
    case True
    with "1.prems" show ?thesis
      by (simp add: pow2_ge.simps [of p n])
  next
    case False
    with "1.prems" "1.IH" show ?thesis
      by (simp add: pow2_ge.simps [of p n])
  qed
qed

lemma abs_sint_bound: "\<bar>sint (d :: Duration)\<bar> \<le> 9223372036854775808"
  using sint_ge [of d] sint_lt [of d] by simp

lemma Seconds_int_unfold:
  fixes d :: Duration
  defines "sec \<equiv> \<bar>sint d\<bar> div 1000000000"
    and "nsec \<equiv> \<bar>sint d\<bar> mod 1000000000"
  defines "up \<equiv> 1 \<le> sec \<and>
      nsec * 18014398509481984 > 1000000000 * (18014398509481984 - pow2_ge 1 (sec + 1) - 1)"
  shows "Seconds_int d =
     (if 0 \<le> sint d then (if up then sec + 1 else sec) else - (if up then sec + 1 else sec))"
  by (simp only: Seconds_int_def Let_def sec_def nsec_def up_def)

lemma sec_bounds:
  fixes d :: Duration
  shows "0 \<le> \<bar>sint d\<bar> div 1000000000" "\<bar>sint d\<bar> div 1000000000 \<le> 9223372036"
proof -
  have "\<bar>sint d\<bar> div 1000000000 \<le> 9223372036854775808 div 1000000000"
    using abs_sint_bound [of d] by (rule zdiv_mono1) simp
  then show "\<bar>sint d\<bar> div 1000000000 \<le> 9223372036"
    by simp
  show "0 \<le> \<bar>sint d\<bar> div 1000000000"
    by (rule pos_imp_zdiv_nonneg_iff [THEN iffD2]) simp_all
qed

lemma Seconds_int_range:
  "- 9223372036854775808 \<le> Seconds_int d \<and> Seconds_int d \<le> 9223372036854775807"
proof -
  define sec where "sec = \<bar>sint d\<bar> div 1000000000"
  define up where "up \<longleftrightarrow> 1 \<le> sec \<and>
      \<bar>sint d\<bar> mod 1000000000 * 18014398509481984 >
        1000000000 * (18014398509481984 - pow2_ge 1 (sec + 1) - 1)"
  have b: "0 \<le> sec" "sec \<le> 9223372036"
    unfolding sec_def by (rule sec_bounds)+
  have S: "Seconds_int d =
     (if 0 \<le> sint d then (if up then sec + 1 else sec) else - (if up then sec + 1 else sec))"
    unfolding up_def sec_def by (rule Seconds_int_unfold)
  from b show ?thesis
    by (cases up; cases "0 \<le> sint d") (simp_all add: S)
qed

lemma Seconds_int_whole:
  assumes "whole_seconds d"
  shows "Seconds_int d * 1000000000 = sint d"
proof -
  define sec where "sec = \<bar>sint d\<bar> div 1000000000"
  define H where "H = pow2_ge 1 (sec + 1)"
  define up where "up \<longleftrightarrow> 1 \<le> sec \<and>
      \<bar>sint d\<bar> mod 1000000000 * 18014398509481984 > 1000000000 * (18014398509481984 - H - 1)"
  have b: "0 \<le> sec" "sec \<le> 9223372036"
    unfolding sec_def by (rule sec_bounds)+
  from assms have "(1000000000 :: int) dvd sint d"
    by (simp add: whole_seconds_def dvd_eq_mod_eq_0)
  then have dv: "(1000000000 :: int) dvd \<bar>sint d\<bar>"
    by simp
  then have z: "\<bar>sint d\<bar> mod 1000000000 = 0"
    by (simp add: dvd_eq_mod_eq_0)
  have "H \<le> 2 * (sec + 1)" if "1 \<le> sec"
    unfolding H_def using that by (intro pow2_ge_bound) simp_all
  with b have "\<not> up"
    unfolding up_def z by auto
  moreover have "Seconds_int d =
     (if 0 \<le> sint d then (if up then sec + 1 else sec) else - (if up then sec + 1 else sec))"
    unfolding up_def H_def sec_def by (rule Seconds_int_unfold)
  ultimately have "Seconds_int d = (if 0 \<le> sint d then sec else - sec)"
    by simp
  moreover from dvd_div_mult_self [OF dv] have "sec * 1000000000 = \<bar>sint d\<bar>"
    unfolding sec_def .
  ultimately show ?thesis
    by (simp split: if_splits)
qed

lemma Seconds_int_examples:
  "Seconds_int 1500000000 = 1" "Seconds_int (- 1500000000) = - 1"
  "Seconds_int 16777215999999999 = 16777215" "Seconds_int 16777216999999999 = 16777217"
  by code_simp+

lemma ttl_roundtrip:
  assumes "whole_seconds d"
  shows "(word_of_int (fst (ParseInt (Itoa (Seconds_int d)))) :: Duration) * Second = d"
proof -
  have "fst (ParseInt (Itoa (Seconds_int d))) = Seconds_int d"
    using Seconds_int_range [of d] by (simp add: ParseInt_Itoa)
  moreover have "(word_of_int (Seconds_int d) :: Duration) * Second
      = word_of_int (Seconds_int d * 1000000000)"
    by (simp add: Second_def)
  ultimately show ?thesis
    using Seconds_int_whole [OF assms] by simp
qed

lemma Itoa_nonempty: "0 \<le> n \<Longrightarrow> Itoa n \<noteq> ''''"
  using digits_hd [of n] by (simp add: Itoa_def)

lemma preference_roundtrip:
  "Atoi (Itoa (uint (p :: 16 word))) = (uint p, None)"
proof -
  have "uint p < 65536" using uint_lt2p [of p] by simp
  moreover have "0 \<le> uint p" by simp
  ultimately have "ParseInt (Itoa (uint p)) = (uint p, None)"
    by (intro ParseInt_Itoa) linarith+
  then show ?thesis
    by (simp add: Atoi_def)
qed

lemma ToUpper_tags [simp]:
  "ToUpper ''A'' = ''A''" "ToUpper ''AAAA'' = ''AAAA''" "ToUpper ''TXT'' = ''TXT''"
  "ToUpper ''CNAME'' = ''CNAME''" "ToUpper ''MX'' = ''MX''"
  by (simp_all add: ToUpper_def upper_char_def)

lemma RR_eta: "\<lparr>rr_Name = rr_Name r, rr_TTL = rr_TTL r, rr_Type = rr_Type r, rr_Data = rr_Data r\<rparr> = r"
  by simp

lemma generic_keeps:
  assumes "generic_returns N r"
  shows "RR_of N (convertToLibDNSRecord N
            (zero_record\<lparr>rec_Name := n, rec_Type := rr_Type r, rec_Value := rr_Data r,
                         rec_TTL := t\<rparr>) zone) =
     \<lparr>rr_Name = makeAbsoluteName n zone,
      rr_TTL = word_of_int (fst (ParseInt t)) * Second,
      rr_Type = rr_Type r, rr_Data = rr_Data r\<rparr>"
proof -
  let ?u = "ToUpper (rr_Type r)"
  consider (addr) "?u = ''A'' \<or> ?u = ''AAAA''"
    | (tc) "\<not> (?u = ''A'' \<or> ?u = ''AAAA'')" "?u = ''TXT'' \<or> ?u = ''CNAME''"
    | (mx) "\<not> (?u = ''A'' \<or> ?u = ''AAAA'')" "\<not> (?u = ''TXT'' \<or> ?u = ''CNAME'')" "?u = ''MX''"
    | (other) "\<not> (?u = ''A'' \<or> ?u = ''AAAA'')" "\<not> (?u = ''TXT'' \<or> ?u = ''CNAME'')"
        "?u \<noteq> ''MX''"
    by blast
  then show ?thesis
  proof cases
    case addr
    with assms show ?thesis
      by (cases "ParseAddr N (rr_Data r)")
         (auto simp: generic_returns_def convertToLibDNSRecord_def Let_def zero_record_def)
  next
    case tc
    with assms show ?thesis
      by (auto simp: generic_returns_def convertToLibDNSRecord_def Let_def zero_record_def)
  next
    case mx
    with assms show ?thesis
      by (auto simp: generic_returns_def convertToLibDNSRecord_def Let_def zero_record_def)
  next
    case other
    then show ?thesis
      by (auto simp: convertToLibDNSRecord_def Let_def zero_record_def)
  qed
qed

lemma getRecordType_cases: "getRecordType N ip = ''A'' \<or> getRecordType N ip = ''AAAA''"
  by (simp add: getRecordType_def Let_def)

lemma convertTo_address:
  assumes "ParseAddr N (ip_String N ip) = Some ip"
  shows "convertToLibDNSRecord N
            (zero_record\<lparr>rec_Name := n, rec_Type := getRecordType N ip,
                         rec_Value := ip_String N ip, rec_TTL := t\<rparr>) zone =
     Address (makeAbsoluteName n zone) (word_of_int (fst (ParseInt t)) * Second) ip"
  using assms getRecordType_cases [of N ip]
  by (auto simp: convertToLibDNSRecord_def Let_def)

lemma convertTo_MX:
  assumes "ToUpper (rec_Type rec) = ''MX''"
  shows "Preference (convertToLibDNSRecord N rec zone) =
     Some (word_of_int (if rec_MX rec \<noteq> '''' then
        (case Atoi (rec_MX rec) of (p, None) \<Rightarrow> p | (p, Some err) \<Rightarrow> 0) else 0))"
  using assms by (simp add: convertToLibDNSRecord_def Let_def)

lemma Atoi_empty: "Atoi '''' = (0, Some ErrSyntax)"
  by (simp add: Atoi_def ParseInt_def)

section \<open>Facts about the client\<close>

lemma makeRequest_state:
  "snd (makeRequest T endpoint params c) = c\<lparr>sent := sent c @ [request_of c endpoint params]\<rparr>"
  by (simp add: makeRequest_def post_form_def Let_def split: http_result.splits option.splits prod.splits)

lemma makeRequest_cases:
  obtains err where "makeRequest T endpoint params c =
      (Inl err, c\<lparr>sent := sent c @ [request_of c endpoint params]\<rparr>)"
  | b where "makeRequest T endpoint params c =
      (Inr b, c\<lparr>sent := sent c @ [request_of c endpoint params]\<rparr>)"
proof (cases "fst (makeRequest T endpoint params c)")
  case (Inl err)
  then have "makeRequest T endpoint params c =
      (Inl err, c\<lparr>sent := sent c @ [request_of c endpoint params]\<rparr>)"
    using makeRequest_state [of T endpoint params c] by (simp add: prod_eq_iff)
  then show ?thesis by (rule that(1))
next
  case (Inr b)
  then have "makeRequest T endpoint params c =
      (Inr b, c\<lparr>sent := sent c @ [request_of c endpoint params]\<rparr>)"
    using makeRequest_state [of T endpoint params c] by (simp add: prod_eq_iff)
  then show ?thesis by (rule that(2))
qed

lemma listRecords_state:
  "snd (listRecords T domainID c) =
     c\<lparr>sent := sent c @ [request_of c ''Record.List'' [''domain_id'' \<mapsto> domainID]]\<rparr>"
  by (rule makeRequest_cases [of T "''Record.List''" "[''domain_id'' \<mapsto> domainID]" c])
     (simp_all add: listRecords_def split: option.splits)

lemma createRecord_state:
  "snd (createRecord T domainID rec c) =
     c\<lparr>sent := sent c @ [request_of c ''Record.Create'' (create_params domainID rec)]\<rparr>"
  by (rule makeRequest_cases [of T "''Record.Create''" "create_params domainID rec" c])
     (simp_all add: createRecord_def split: option.splits)

lemma updateRecord_state:
  "snd (updateRecord T domainID recordID rec c) =
     c\<lparr>sent := sent c @ [request_of c ''Record.Modify'' (update_params domainID recordID rec)]\<rparr>"
  by (rule makeRequest_cases [of T "''Record.Modify''" "update_params domainID recordID rec" c])
     (simp_all add: updateRecord_def split: option.splits)

lemma deleteRecord_state:
  "snd (deleteRecord T domainID recordID c) =
     c\<lparr>sent := sent c @ [request_of c ''Record.Remove''
        [''domain_id'' \<mapsto> domainID, ''record_id'' \<mapsto> recordID]]\<rparr>"
  by (rule makeRequest_cases [of T "''Record.Remove''"
        "[''domain_id'' \<mapsto> domainID, ''record_id'' \<mapsto> recordID]" c])
     (simp_all add: deleteRecord_def)

lemma getDomains_hit: "domainList c \<noteq> [] \<Longrightarrow> getDomains T c = (Inr (domainList c), c)"
  by (simp add: getDomains_def)

lemma getDomainID_hit: "domainList c \<noteq> [] \<Longrightarrow> snd (getDomainID T zone c) = c"
  by (simp add: getDomainID_def getDomains_hit Let_def split: option.splits)

lemma getDomains_miss_sent:
  "domainList c = [] \<Longrightarrow>
     sent (snd (getDomains T c)) = sent c @ [request_of c ''Domain.List'' Map.empty]"
  by (rule makeRequest_cases [of T "''Domain.List''" Map.empty c])
     (simp_all add: getDomains_def split: option.splits)

lemma getDomainID_snd: "snd (getDomainID T zone c) = snd (getDomains T c)"
  by (simp add: getDomainID_def Let_def split: prod.splits sum.splits option.splits)

lemma getDomainID_miss_sent:
  "domainList c = [] \<Longrightarrow>
     sent (snd (getDomainID T zone c)) = sent c @ [request_of c ''Domain.List'' Map.empty]"
  by (simp add: getDomainID_snd getDomains_miss_sent)

lemma run_call_cached:
  assumes "domainList c \<noteq> []"
  shows "domainList (run_call T k c) = domainList c \<and>
         Domain_List_count (run_call T k c) = Domain_List_count c"
  using assms
  by (cases k)
     (simp_all add: getDomainID_hit listRecords_state createRecord_state updateRecord_state
        deleteRecord_state Domain_List_count_def request_of_def)

lemma run_calls_cached:
  "domainList c \<noteq> [] \<Longrightarrow>
     domainList (run_calls T ks c) = domainList c \<and>
     Domain_List_count (run_calls T ks c) = Domain_List_count c"
proof (induction ks arbitrary: c)
  case Nil
  show ?case by simp
next
  case (Cons k ks)
  from Cons.prems have s: "domainList (run_call T k c) = domainList c"
    "Domain_List_count (run_call T k c) = Domain_List_count c"
    using run_call_cached [of c T k] by simp_all
  with Cons.prems have "domainList (run_call T k c) \<noteq> []" by simp
  from Cons.IH [OF this] s show ?case by simp
qed

section \<open>Facts about the reconciliation engine\<close>

lemma delete_recordID_find:
  "delete_recordID N zone rr existing =
     (case find (same_name_type_data N zone rr) existing of None \<Rightarrow> '''' | Some e \<Rightarrow> rec_ID e)"
  by (induction existing) (simp_all add: same_name_type_data_def Let_def)

lemma set_recordID_find:
  "set_recordID N zone rr existing =
     (case find (same_name_type N zone rr) existing of None \<Rightarrow> '''' | Some e \<Rightarrow> rec_ID e)"
  by (induction existing) (simp_all add: same_name_type_def Let_def)

lemma updateRecord_cases:
  obtains err where "updateRecord T domainID recordID rec c = (Inl err, snd (updateRecord T domainID recordID rec c))"
  | r where "updateRecord T domainID recordID rec c = (Inr r, snd (updateRecord T domainID recordID rec c))"
  by (cases "updateRecord T domainID recordID rec c"; cases "fst (updateRecord T domainID recordID rec c)") auto

lemma createRecord_cases:
  obtains err where "createRecord T domainID rec c = (Inl err, snd (createRecord T domainID rec c))"
  | r where "createRecord T domainID rec c = (Inr r, snd (createRecord T domainID rec c))"
  by (cases "createRecord T domainID rec c"; cases "fst (createRecord T domainID rec c)") auto

lemma deleteRecord_cases:
  obtains err where "deleteRecord T domainID recordID c = (Some err, snd (deleteRecord T domainID recordID c))"
  | "deleteRecord T domainID recordID c = (None, snd (deleteRecord T domainID recordID c))"
  by (cases "deleteRecord T domainID recordID c"; cases "fst (deleteRecord T domainID recordID c)") auto

lemma SetRecords_loop_sent:
  "\<exists>later. sent (snd (SetRecords_loop N T zone domainID existing records acc c)) = sent c @ later"
proof (induction records arbitrary: acc c)
  case Nil
  show ?case by simp
next
  case (Cons libRec records)
  let ?rr = "RR_of N libRec"
  let ?id = "set_recordID N zone ?rr existing"
  let ?rec = "convertFromLibDNSRecord N libRec zone"
  show ?case
  proof (cases "?id = ''''")
    case True
    show ?thesis
    proof (rule createRecord_cases [of T domainID ?rec c])
      fix err assume "createRecord T domainID ?rec c = (Inl err, snd (createRecord T domainID ?rec c))"
      with True show ?thesis
        by (simp add: Let_def createRecord_state)
    next
      fix r assume "createRecord T domainID ?rec c = (Inr r, snd (createRecord T domainID ?rec c))"
      with True show ?thesis
        using Cons.IH [of "acc @ [convertToLibDNSRecord N r zone]" "snd (createRecord T domainID ?rec c)"]
        by (auto simp: Let_def createRecord_state)
    qed
  next
    case False
    show ?thesis
    proof (rule updateRecord_cases [of T domainID ?id ?rec c])
      fix err assume "updateRecord T domainID ?id ?rec c = (Inl err, snd (updateRecord T domainID ?id ?rec c))"
      with False show ?thesis
        by (simp add: Let_def updateRecord_state)
    next
      fix r assume "updateRecord T domainID ?id ?rec c = (Inr r, snd (updateRecord T domainID ?id ?rec c))"
      with False show ?thesis
        using Cons.IH [of "acc @ [convertToLibDNSRecord N r zone]" "snd (updateRecord T domainID ?id ?rec c)"]
        by (auto simp: Let_def updateRecord_state)
    qed
  qed
qed


lemma SetRecords_loop_create:
  assumes "set_recordID N zone (RR_of N libRec) existing = ''''"
  shows "\<exists>later.
     sent (snd (SetRecords_loop N T zone domainID existing (libRec # records) acc c)) =
       sent c @ request_of c ''Record.Create''
         (create_params domainID (convertFromLibDNSRecord N libRec zone)) # later \<and>
     (records = [] \<longrightarrow> later = [])"
proof -
  let ?rec = "convertFromLibDNSRecord N libRec zone"
  let ?c' = "snd (createRecord T domainID ?rec c)"
  show ?thesis
  proof (rule createRecord_cases [of T domainID ?rec c])
    fix err assume "createRecord T domainID ?rec c = (Inl err, ?c')"
    with assms show ?thesis
      by (simp add: Let_def createRecord_state)
  next
    fix r assume u: "createRecord T domainID ?rec c = (Inr r, ?c')"
    obtain later where
      "sent (snd (SetRecords_loop N T zone domainID existing records
          (acc @ [convertToLibDNSRecord N r zone]) ?c')) = sent ?c' @ later"
      using SetRecords_loop_sent by blast
    moreover have "records = [] \<Longrightarrow>
      sent (snd (SetRecords_loop N T zone domainID existing records
          (acc @ [convertToLibDNSRecord N r zone]) ?c')) = sent ?c'"
      by simp
    ultimately show ?thesis
      using assms u by (auto simp: Let_def createRecord_state)
  qed
qed

lemma DeleteRecords_loop_not_found:
  assumes "delete_recordID N zone (RR_of N libRec) existing = ''''"
  shows "DeleteRecords_loop N T zone domainID existing (libRec # records) deleted c =
     ((deleted, Some (RecordNotFound (rr_Name (RR_of N libRec)) (rr_Type (RR_of N libRec))
         (rr_Data (RR_of N libRec)))), c)"
  using assms by (simp add: Let_def)

lemma DeleteRecords_loop_prefix:
  "DeleteRecords_loop N T zone domainID existing records deleted c = ((out, err), c') \<Longrightarrow>
     (\<exists>rest. deleted @ records = out @ rest) \<and> (err = None \<longrightarrow> out = deleted @ records)"
proof (induction records arbitrary: deleted c)
  case Nil
  then show ?case by simp
next
  case (Cons libRec records)
  let ?id = "delete_recordID N zone (RR_of N libRec) existing"
  show ?case
  proof (cases "?id = ''''")
    case True
    with Cons.prems show ?thesis
      by (auto simp: Let_def)
  next
    case False
    obtain r c2 where d: "deleteRecord T domainID ?id c = (r, c2)"
      by (cases "deleteRecord T domainID ?id c")
    show ?thesis
    proof (cases r)
      case (Some e)
      with False d Cons.prems show ?thesis
        by (auto simp: Let_def)
    next
      case None
      with False d Cons.prems have
        "DeleteRecords_loop N T zone domainID existing records (deleted @ [libRec]) c2
           = ((out, err), c')"
        by (simp add: Let_def)
      from Cons.IH [OF this] show ?thesis
        by simp
    qed
  qed
qed


lemma find_None_no_match: "find P xs = None \<longleftrightarrow> (\<forall>x\<in>set xs. \<not> P x)"
  by (induction xs) simp_all

lemma DeleteRecords_loop_append:
  "DeleteRecords_loop N T zone domainID existing (before @ records) deleted c =
     (case DeleteRecords_loop N T zone domainID existing before deleted c of
        ((out, None), c') \<Rightarrow> DeleteRecords_loop N T zone domainID existing records out c'
      | ((out, Some err), c') \<Rightarrow> ((out, Some err), c'))"
proof (induction before arbitrary: deleted c)
  case Nil
  show ?case by simp
next
  case (Cons libRec before)
  let ?id = "delete_recordID N zone (RR_of N libRec) existing"
  obtain r c2 where d: "deleteRecord T domainID ?id c = (r, c2)"
    by (cases "deleteRecord T domainID ?id c")
  show ?case
    by (cases r) (simp_all add: Let_def d Cons.IH)
qed

lemma DeleteRecords_loop_stops:
  assumes "DeleteRecords_loop N T zone domainID existing before [] c = ((out, None), c')"
    and "delete_recordID N zone (RR_of N libRec) existing = ''''"
  shows "DeleteRecords_loop N T zone domainID existing (before @ libRec # records) [] c =
     ((before, Some (RecordNotFound (rr_Name (RR_of N libRec)) (rr_Type (RR_of N libRec))
         (rr_Data (RR_of N libRec)))), c')"
proof -
  from DeleteRecords_loop_prefix [OF assms(1)] have "out = before"
    by simp
  with assms show ?thesis
    by (simp add: DeleteRecords_loop_append Let_def)
qed

section \<open>Properties of the record translator\<close>

text \<open>
  C1 (as amended). Translating a uniform record to provider form and back reproduces its
  canonical projection (name, type tag, opaque data, TTL) whenever the record's name lies
  in the zone, its TTL is a whole number of seconds, and the record is one that the
  translator hands back: an address record with a valid address, a text, canonical-name or
  mail-exchange record, or a generic record whose type tag selects a record of the same
  projection on the way back (see \<open>generic_returns\<close>; a record of any other implementation
  is treated as the generic record of its projection).
\<close>

theorem roundtrip_projection:
  assumes z: "in_zone (rr_Name (RR_of N r)) zone"
    and w: "whole_seconds (rr_TTL (RR_of N r))"
    and g: "returns N r"
  shows "RR_of N (convertToLibDNSRecord N (convertFromLibDNSRecord N r zone) zone) = RR_of N r"
proof (cases r)
  case (Address name ttl ip)
  with g have "ParseAddr N (ip_String N ip) = Some ip"
    by simp
  with Address z w show ?thesis
    by (simp add: convertTo_address absolute_of_relative ttl_roundtrip)
next
  case (TXT name ttl s)
  with z w show ?thesis
    by (simp add: convertToLibDNSRecord_def zero_record_def absolute_of_relative ttl_roundtrip)
next
  case (CNAME name ttl target)
  with z w show ?thesis
    by (simp add: convertToLibDNSRecord_def zero_record_def absolute_of_relative ttl_roundtrip)
next
  case (MX name ttl preference target)
  with z w show ?thesis
    by (simp add: convertToLibDNSRecord_def zero_record_def absolute_of_relative ttl_roundtrip
        Itoa_nonempty preference_roundtrip)
next
  case (Generic rr)
  with g have "generic_returns N rr"
    by simp
  with Generic z w show ?thesis
    by (simp add: generic_keeps absolute_of_relative ttl_roundtrip)
next
  case (Other rr)
  with g have "generic_returns N rr"
    by simp
  with Other z w show ?thesis
    by (simp add: generic_keeps absolute_of_relative ttl_roundtrip)
qed

text \<open>
  The theorem at an address record of the zone \<open>example.com\<close> and at a generic record of
  type \<open>A\<close> with the same data.
\<close>

theorem roundtrip_projection_witness:
  "in_zone (rr_Name (RR_of text_netip (Address ''www.example.com.'' 600000000000 ''192.0.2.1'')))
      ''example.com'' \<and>
   whole_seconds
      (rr_TTL (RR_of text_netip (Address ''www.example.com.'' 600000000000 ''192.0.2.1''))) \<and>
   returns text_netip (Address ''www.example.com.'' 600000000000 ''192.0.2.1'') \<and>
   RR_of text_netip (convertToLibDNSRecord text_netip
      (convertFromLibDNSRecord text_netip
         (Address ''www.example.com.'' 600000000000 ''192.0.2.1'') ''example.com'')
      ''example.com'')
    = \<lparr>rr_Name = ''www.example.com.'', rr_TTL = 600000000000, rr_Type = ''A'',
       rr_Data = ''192.0.2.1''\<rparr> \<and>
   returns text_netip
      (Generic \<lparr>rr_Name = ''www.example.com.'', rr_TTL = 600000000000, rr_Type = ''A'',
                rr_Data = ''192.0.2.1''\<rparr>) \<and>
   RR_of text_netip (convertToLibDNSRecord text_netip
      (convertFromLibDNSRecord text_netip
         (Generic \<lparr>rr_Name = ''www.example.com.'', rr_TTL = 600000000000, rr_Type = ''A'',
                   rr_Data = ''192.0.2.1''\<rparr>) ''example.com'')
      ''example.com'')
    = \<lparr>rr_Name = ''www.example.com.'', rr_TTL = 600000000000, rr_Type = ''A'',
       rr_Data = ''192.0.2.1''\<rparr>"
proof -
  let ?r = "Address ''www.example.com.'' 600000000000 ''192.0.2.1'' :: string Record"
  let ?v = "\<lparr>rr_Name = ''www.example.com.'', rr_TTL = 600000000000, rr_Type = ''A'',
       rr_Data = ''192.0.2.1''\<rparr>"
  let ?g = "Generic ?v :: string Record"
  have v: "RR_of text_netip ?r = ?v"
    by code_simp
  have vg: "RR_of text_netip ?g = ?v"
    by simp
  have z: "in_zone (rr_Name ?v) ''example.com''"
    by code_simp
  have w: "whole_seconds (rr_TTL ?v)"
    by code_simp
  have g: "returns text_netip ?r" "returns text_netip ?g"
    by code_simp+
  have 1: "RR_of text_netip (convertToLibDNSRecord text_netip
      (convertFromLibDNSRecord text_netip ?r ''example.com'') ''example.com'') = ?v"
    using roundtrip_projection [of text_netip ?r "''example.com''"] z w g(1)
    unfolding v by blast
  have 2: "RR_of text_netip (convertToLibDNSRecord text_netip
      (convertFromLibDNSRecord text_netip ?g ''example.com'') ''example.com'') = ?v"
    using roundtrip_projection [of text_netip ?g "''example.com''"] z w g(2)
    unfolding vg by blast
  from z w g 1 2 show ?thesis
    unfolding v by blast
qed

text \<open>
  C1 as stated fails without the restrictions. A text record with a TTL of 1.5 seconds
  comes back with a TTL of 1 second, since the provider form holds whole seconds. A generic
  record of type \<open>MX\<close>, whose data is \<open>10 mail.example.com.\<close>, comes back as a mail-exchange
  record of preference 0 whose target is the whole data string.
\<close>

theorem roundtrip_projection_counterexample:
  "in_zone ''www.example.com.'' ''example.com'' \<and>
   RR_of text_netip (TXT ''www.example.com.'' 1500000000 ''hello'')
     = \<lparr>rr_Name = ''www.example.com.'', rr_TTL = 1500000000, rr_Type = ''TXT'', rr_Data = ''hello''\<rparr> \<and>
   RR_of text_netip (convertToLibDNSRecord text_netip
      (convertFromLibDNSRecord text_netip (TXT ''www.example.com.'' 1500000000 ''hello'') ''example.com'')
      ''example.com'')
     = \<lparr>rr_Name = ''www.example.com.'', rr_TTL = 1000000000, rr_Type = ''TXT'', rr_Data = ''hello''\<rparr> \<and>
   in_zone ''example.com.'' ''example.com'' \<and>
   RR_of text_netip (convertToLibDNSRecord text_netip
      (convertFromLibDNSRecord text_netip
         (Generic \<lparr>rr_Name = ''example.com.'', rr_TTL = 600000000000, rr_Type = ''MX'',
                   rr_Data = ''10 mail.example.com.''\<rparr>) ''example.com'')
      ''example.com'')
     = \<lparr>rr_Name = ''example.com.'', rr_TTL = 600000000000, rr_Type = ''MX'',
        rr_Data = ''0 10 mail.example.com.''\<rparr>"
  by code_simp

text \<open>
  C7 (as amended). Relativization and absolutization against a zone are mutual inverses on
  the names of the zone: relativizing and then absolutizing returns every fully-qualified
  name that lies in the zone (the apex included), and absolutizing and then relativizing
  returns every relative name that is non-empty and not dot-terminated (the apex marker
  \<open>@\<close> included).
\<close>

theorem names_mutual_inverse:
  "(in_zone name zone \<longrightarrow> makeAbsoluteName (extractRecordName name zone) zone = name) \<and>
   (rel \<noteq> '''' \<and> \<not> HasSuffix rel ''.'' \<longrightarrow>
      extractRecordName (makeAbsoluteName rel zone) zone = rel)"
  by (simp add: absolute_of_relative relative_of_absolute)

text \<open>The theorem at \<open>www.example.com.\<close>, at the apex and at their relative names.\<close>

theorem names_mutual_inverse_witness:
  "in_zone ''www.example.com.'' ''example.com'' \<and>
   makeAbsoluteName (extractRecordName ''www.example.com.'' ''example.com'') ''example.com''
     = ''www.example.com.'' \<and>
   ''www'' \<noteq> '''' \<and> \<not> HasSuffix ''www'' ''.'' \<and>
   extractRecordName (makeAbsoluteName ''www'' ''example.com'') ''example.com'' = ''www'' \<and>
   in_zone ''example.com.'' ''example.com'' \<and>
   makeAbsoluteName (extractRecordName ''example.com.'' ''example.com'') ''example.com''
     = ''example.com.'' \<and>
   extractRecordName (makeAbsoluteName ''@'' ''example.com'') ''example.com'' = ''@''"
proof -
  have z: "in_zone ''www.example.com.'' ''example.com''" "in_zone ''example.com.'' ''example.com''"
    by code_simp+
  have r: "''www'' \<noteq> '''' \<and> \<not> HasSuffix ''www'' ''.''" "''@'' \<noteq> '''' \<and> \<not> HasSuffix ''@'' ''.''"
    by code_simp+
  show ?thesis
    using names_mutual_inverse [of "''www.example.com.''" "''example.com''" "''www''"]
      names_mutual_inverse [of "''example.com.''" "''example.com''" "''@''"] z r
    by simp
qed

text \<open>
  C7 as stated also covers the names that are already absolute, and fails there:
  absolutization passes a dot-terminated name through, so relativizing the result gives the
  relative name \<open>www\<close> and not the starting name \<open>www.example.com.\<close>; and a dot-terminated
  name outside the zone loses its dot when relativized and then has the zone appended.
\<close>

theorem names_mutual_inverse_counterexample:
  "makeAbsoluteName ''www.example.com.'' ''example.com'' = ''www.example.com.'' \<and>
   extractRecordName (makeAbsoluteName ''www.example.com.'' ''example.com'') ''example.com''
     = ''www'' \<and>
   extractRecordName ''mail.example.org.'' ''example.com'' = ''mail.example.org'' \<and>
   makeAbsoluteName (extractRecordName ''mail.example.org.'' ''example.com'') ''example.com''
     = ''mail.example.org.example.com.''"
  by code_simp

text \<open>
  C8 (as amended). For a provider record whose type tag is \<open>MX\<close> in any letter case, the
  preference is the mail-exchange field read by \<open>strconv.Atoi\<close>, a signed decimal, and
  converted to 16 bits (so reduced modulo \<open>2^16\<close>); it is 0 for every field that \<open>Atoi\<close>
  rejects and for the empty field, and it is \<open>n\<close> for the decimal text of every \<open>n\<close> from
  0 to 65535.
\<close>

theorem MX_preference:
  assumes "ToUpper (rec_Type rec) = ''MX''"
  shows "(\<forall>p. Atoi (rec_MX rec) = (p, None) \<longrightarrow>
            Preference (convertToLibDNSRecord N rec zone) = Some (word_of_int p)) \<and>
         (snd (Atoi (rec_MX rec)) \<noteq> None \<longrightarrow>
            Preference (convertToLibDNSRecord N rec zone) = Some 0) \<and>
         (rec_MX rec = '''' \<longrightarrow>
            Preference (convertToLibDNSRecord N rec zone) = Some 0) \<and>
         (\<forall>n. 0 \<le> n \<and> n \<le> 65535 \<and> rec_MX rec = Itoa n \<longrightarrow>
            Preference (convertToLibDNSRecord N rec zone) = Some (word_of_int n))"
proof (intro conjI allI impI)
  fix p assume "Atoi (rec_MX rec) = (p, None)"
  then show "Preference (convertToLibDNSRecord N rec zone) = Some (word_of_int p)"
    by (auto simp: convertTo_MX [OF assms] Atoi_empty)
next
  assume "snd (Atoi (rec_MX rec)) \<noteq> None"
  then show "Preference (convertToLibDNSRecord N rec zone) = Some 0"
    by (auto simp: convertTo_MX [OF assms] split: prod.splits option.splits)
next
  assume "rec_MX rec = ''''"
  then show "Preference (convertToLibDNSRecord N rec zone) = Some 0"
    by (simp add: convertTo_MX [OF assms])
next
  fix n :: int assume n: "0 \<le> n \<and> n \<le> 65535 \<and> rec_MX rec = Itoa n"
  then have "Atoi (rec_MX rec) = (n, None)"
    by (simp add: Atoi_def ParseInt_Itoa)
  with n show "Preference (convertToLibDNSRecord N rec zone) = Some (word_of_int n)"
    by (simp add: convertTo_MX [OF assms] Itoa_nonempty)
qed

text \<open>The theorem at the fields \<open>10\<close>, \<open>ten\<close> and the empty field.\<close>

theorem MX_preference_witness:
  "ToUpper ''mx'' = ''MX'' \<and>
   Atoi ''10'' = (10, None) \<and> ''10'' = Itoa 10 \<and>
   Preference (convertToLibDNSRecord text_netip
      (zero_record\<lparr>rec_Type := ''mx'', rec_MX := ''10''\<rparr>) ''example.com'') = Some 10 \<and>
   snd (Atoi ''ten'') \<noteq> None \<and>
   Preference (convertToLibDNSRecord text_netip
      (zero_record\<lparr>rec_Type := ''mx'', rec_MX := ''ten''\<rparr>) ''example.com'') = Some 0 \<and>
   Preference (convertToLibDNSRecord text_netip
      (zero_record\<lparr>rec_Type := ''mx'', rec_MX := ''''\<rparr>) ''example.com'') = Some 0"
proof -
  have u: "ToUpper ''mx'' = ''MX''" by code_simp
  have a: "Atoi ''10'' = (10, None)" "''10'' = Itoa 10" "snd (Atoi ''ten'') \<noteq> None"
    by code_simp+
  have t: "rec_Type (zero_record\<lparr>rec_Type := ''mx'', rec_MX := m\<rparr>) = ''mx''"
    "rec_MX (zero_record\<lparr>rec_Type := ''mx'', rec_MX := m\<rparr>) = m" for m
    by simp_all
  show ?thesis
    using MX_preference [of "zero_record\<lparr>rec_Type := ''mx'', rec_MX := ''10''\<rparr>" text_netip "''example.com''"]
      MX_preference [of "zero_record\<lparr>rec_Type := ''mx'', rec_MX := ''ten''\<rparr>" text_netip "''example.com''"]
      MX_preference [of "zero_record\<lparr>rec_Type := ''mx'', rec_MX := ''''\<rparr>" text_netip "''example.com''"]
      u a
    unfolding t by simp
qed

text \<open>
  C8 as stated reads the field as an unsigned integer and gives 0 otherwise. The field
  \<open>-1\<close> is no unsigned integer (\<open>ParseUint\<close> rejects it), yet its preference is 65535.
\<close>

theorem MX_preference_counterexample:
  "ParseUint ''-1'' = (0, Some ErrSyntax) \<and>
   Preference (convertToLibDNSRecord text_netip
      (zero_record\<lparr>rec_Name := ''@'', rec_Type := ''MX'', rec_Value := ''mail.example.com.'',
                   rec_TTL := ''600'', rec_MX := ''-1''\<rparr>) ''example.com'') = Some 65535"
  by code_simp

section \<open>Properties of the client\<close>

text \<open>
  C5 (as amended). When a response arrives with HTTP status 200 and its envelope carries
  a status code other than the success code \<open>1\<close>, \<open>makeRequest\<close> fails with the provider's
  error, which carries that code and its message. The check is made before any caller decodes the payload:
  listing the domains or the records, creating and modifying a record each fail with that
  error, whatever the payload of the body decodes to.
\<close>

theorem api_error_precedes_payload:
  assumes "fst (post_form T endpoint params c) = Response 200 b"
    and "as_apiResponse b = Some (code, message)"
    and "code \<noteq> successCode"
  shows "fst (makeRequest T endpoint params c) = Inl (APIError code message) \<and>
    (endpoint = ''Domain.List'' \<and> params = Map.empty \<and> domainList c = [] \<longrightarrow>
       fst (getDomains T c) = Inl (Wrap ''failed to list domains'' (APIError code message))) \<and>
    (endpoint = ''Record.List'' \<and> params = [''domain_id'' \<mapsto> domainID] \<longrightarrow>
       fst (listRecords T domainID c) =
         Inl (Wrap ''failed to list records'' (APIError code message))) \<and>
    (endpoint = ''Record.Create'' \<and> params = create_params domainID rec \<longrightarrow>
       fst (createRecord T domainID rec c) =
         Inl (Wrap ''failed to create record'' (APIError code message))) \<and>
    (endpoint = ''Record.Modify'' \<and> params = update_params domainID recordID rec \<longrightarrow>
       fst (updateRecord T domainID recordID rec c) =
         Inl (Wrap ''failed to update record'' (APIError code message)))"
proof -
  from assms have m: "fst (makeRequest T endpoint params c) = Inl (APIError code message)"
    by (cases "post_form T endpoint params c") (simp add: makeRequest_def)
  then obtain c' where "makeRequest T endpoint params c = (Inl (APIError code message), c')"
    by (cases "makeRequest T endpoint params c") simp
  then show ?thesis
    by (auto simp: getDomains_def listRecords_def createRecord_def updateRecord_def)
qed

text \<open>
  The theorem at a response with the code \<open>-1\<close> whose record list does decode: the call
  fails with the provider's error and the list is never read.
\<close>

theorem api_error_precedes_payload_witness:
  "fst (post_form (\<lambda>h. Response 200 (body_of ''-1'' ''Login fail'' [] [zero_record] zero_record))
      ''Record.List'' [''domain_id'' \<mapsto> ''42''] (newClient ''id,token''))
     = Response 200 (body_of ''-1'' ''Login fail'' [] [zero_record] zero_record) \<and>
   as_apiResponse (body_of ''-1'' ''Login fail'' [] [zero_record] zero_record)
     = Some (''-1'', ''Login fail'') \<and>
   ''-1'' \<noteq> successCode \<and>
   as_recordListResponse (body_of ''-1'' ''Login fail'' [] [zero_record] zero_record)
     = Some [zero_record] \<and>
   fst (makeRequest (\<lambda>h. Response 200 (body_of ''-1'' ''Login fail'' [] [zero_record] zero_record))
      ''Record.List'' [''domain_id'' \<mapsto> ''42''] (newClient ''id,token''))
     = Inl (APIError ''-1'' ''Login fail'') \<and>
   fst (listRecords (\<lambda>h. Response 200 (body_of ''-1'' ''Login fail'' [] [zero_record] zero_record))
      ''42'' (newClient ''id,token''))
     = Inl (Wrap ''failed to list records'' (APIError ''-1'' ''Login fail''))"
proof -
  let ?b = "body_of ''-1'' ''Login fail'' [] [zero_record] zero_record"
  let ?T = "\<lambda>h :: request list. Response 200 ?b"
  have 1: "fst (post_form ?T ''Record.List'' [''domain_id'' \<mapsto> ''42''] (newClient ''id,token''))
     = Response 200 ?b"
    by (simp add: post_form_def Let_def)
  have 2: "as_apiResponse ?b = Some (''-1'', ''Login fail'')"
    and 4: "as_recordListResponse ?b = Some [zero_record]"
    by (simp_all add: body_of_def)
  have 3: "''-1'' \<noteq> successCode"
    by (simp add: successCode_def)
  show ?thesis
    using api_error_precedes_payload [OF 1 2 3, of "''42''"] 1 2 3 4 by simp
qed

text \<open>
  C5 as stated speaks of every response whose envelope carries another code than the success
  code. The HTTP status is tested before the envelope is read: a response with status 201
  and the code \<open>-1\<close> in its envelope fails with the HTTP error, not with the provider's.
\<close>

theorem api_error_precedes_payload_counterexample:
  "as_apiResponse (body_of ''-1'' ''Login fail'' [] [] zero_record)
     = Some (''-1'', ''Login fail'') \<and>
   ''-1'' \<noteq> successCode \<and>
   fst (makeRequest (\<lambda>h. Response 201 (body_of ''-1'' ''Login fail'' [] [] zero_record))
      ''Record.List'' [''domain_id'' \<mapsto> ''42''] (newClient ''id,token''))
     = Inl (HTTPError 201)"
  by (simp add: makeRequest_def post_form_def Let_def body_of_def successCode_def)

text \<open>
  C6 (as amended). A call fails with a transport error exactly when the request could not be
  made, the body could not be read, or the HTTP status code is not 200.
\<close>

theorem transport_error_iff:
  "(\<exists>e. fst (makeRequest T endpoint params c) = Inl e \<and> is_TransportError e) \<longleftrightarrow>
   (case fst (post_form T endpoint params c) of
      NewRequestError \<Rightarrow> False
    | DoError \<Rightarrow> True
    | ReadError \<Rightarrow> True
    | Response StatusCode b \<Rightarrow> StatusCode \<noteq> 200)"
  by (cases "post_form T endpoint params c")
     (auto simp: makeRequest_def split: http_result.splits option.splits)

text \<open>
  C6 as stated takes every 2xx status for a success of the transport. The status 204 is a
  2xx status, and the call fails with the HTTP error, although the body carries the success
  code.
\<close>

theorem transport_error_iff_counterexample:
  "is_2xx 204 \<and>
   fst (makeRequest (\<lambda>h. Response 204 (body_of ''1'' ''ok'' [] [] zero_record))
      ''Record.List'' [''domain_id'' \<mapsto> ''42''] (newClient ''id,token''))
     = Inl (HTTPError 204) \<and>
   is_TransportError (HTTPError 204)"
  by (simp add: is_2xx_def makeRequest_def post_form_def Let_def)

text \<open>
  C2 (as amended). When a resolve call on a client with an empty cache leaves a non-empty
  domain list in the cache, it has sent exactly one request, a \<open>Domain.List\<close>; a resolve
  call after it leaves the client as it is, sending nothing; and after any sequence of later
  calls on the client (resolving, listing, creating, modifying, removing) the number of
  \<open>Domain.List\<close> requests is still one more than before the first call.
\<close>

theorem domain_cache_populated_once:
  assumes "domainList c = []"
    and "domainList (snd (getDomainID T zone c)) \<noteq> []"
  shows "sent (snd (getDomainID T zone c)) = sent c @ [request_of c ''Domain.List'' Map.empty] \<and>
         snd (getDomainID T zone' (snd (getDomainID T zone c))) = snd (getDomainID T zone c) \<and>
         Domain_List_count (run_calls T calls (snd (getDomainID T zone c)))
           = Domain_List_count c + 1"
proof -
  let ?c1 = "snd (getDomainID T zone c)"
  have s: "sent ?c1 = sent c @ [request_of c ''Domain.List'' Map.empty]"
    using assms(1) by (rule getDomainID_miss_sent)
  then have "Domain_List_count ?c1 = Domain_List_count c + 1"
    by (simp add: Domain_List_count_def request_of_def)
  with s assms(2) show ?thesis
    by (simp add: getDomainID_hit run_calls_cached)
qed

text \<open>The theorem at a new client whose account holds the domain \<open>example.com\<close>.\<close>

theorem domain_cache_populated_once_witness:
  "domainList (newClient ''id,token'') = [] \<and>
   domainList (snd (getDomainID
      (\<lambda>h. Response 200 (body_of ''1'' ''ok''
         [\<lparr>dom_ID = ''42'', dom_Name = ''example.com'', dom_Status = ''enable''\<rparr>] [] zero_record))
      ''example.com.'' (newClient ''id,token''))) \<noteq> [] \<and>
   Domain_List_count (run_calls
      (\<lambda>h. Response 200 (body_of ''1'' ''ok''
         [\<lparr>dom_ID = ''42'', dom_Name = ''example.com'', dom_Status = ''enable''\<rparr>] [] zero_record))
      [GetDomainID ''example.com'', ListRecords ''42'', GetDomainID ''example.org'']
      (snd (getDomainID
        (\<lambda>h. Response 200 (body_of ''1'' ''ok''
           [\<lparr>dom_ID = ''42'', dom_Name = ''example.com'', dom_Status = ''enable''\<rparr>] [] zero_record))
        ''example.com.'' (newClient ''id,token'')))) = 1"
proof -
  let ?T = "\<lambda>h :: request list. Response 200 (body_of ''1'' ''ok''
         [\<lparr>dom_ID = ''42'', dom_Name = ''example.com'', dom_Status = ''enable''\<rparr>] [] zero_record)"
  have 1: "domainList (newClient ''id,token'') = []"
    by (simp add: newClient_def)
  have 2: "domainList (snd (getDomainID ?T ''example.com.'' (newClient ''id,token''))) \<noteq> []"
    by (simp add: getDomainID_snd getDomains_def makeRequest_def post_form_def Let_def
        newClient_def body_of_def successCode_def)
  have 3: "Domain_List_count (newClient ''id,token'') = 0"
    by (simp add: Domain_List_count_def newClient_def)
  from domain_cache_populated_once [OF 1 2, of "''example.com''"
      "[GetDomainID ''example.com'', ListRecords ''42'', GetDomainID ''example.org'']"]
  have "Domain_List_count (run_calls ?T
      [GetDomainID ''example.com'', ListRecords ''42'', GetDomainID ''example.org'']
      (snd (getDomainID ?T ''example.com.'' (newClient ''id,token''))))
    = Domain_List_count (newClient ''id,token'') + 1"
    by blast
  then have 4: "Domain_List_count (run_calls ?T
      [GetDomainID ''example.com'', ListRecords ''42'', GetDomainID ''example.org'']
      (snd (getDomainID ?T ''example.com.'' (newClient ''id,token'')))) = 1"
    unfolding 3 by simp
  from 1 2 4 show ?thesis
    by blast
qed

text \<open>
  C2 as stated holds for every resolve call whose \<open>Domain.List\<close> request succeeded. An
  account without domains answers that request with success and an empty list; the cache
  stays empty, which is how the client recognises a cache never filled, and the second
  resolve call sends \<open>Domain.List\<close> again.
\<close>

theorem domain_cache_populated_once_counterexample:
  "fst (makeRequest (\<lambda>h. Response 200 (body_of ''1'' ''ok'' [] [] zero_record))
      ''Domain.List'' Map.empty (newClient ''id,token''))
     = Inr (body_of ''1'' ''ok'' [] [] zero_record) \<and>
   map req_endpoint (sent (snd (getDomainID (\<lambda>h. Response 200 (body_of ''1'' ''ok'' [] [] zero_record))
      ''example.com''
      (snd (getDomainID (\<lambda>h. Response 200 (body_of ''1'' ''ok'' [] [] zero_record))
         ''example.com'' (newClient ''id,token''))))))
     = [''Domain.List'', ''Domain.List'']"
  by (simp add: getDomainID_snd getDomains_def makeRequest_def post_form_def Let_def
        newClient_def body_of_def successCode_def request_of_def)

section \<open>Properties of the reconciliation engine\<close>




text \<open>
  C4. In \<open>DeleteRecords\<close> the identifier found for an input belongs to an existing record
  whose translation has exactly the name, the type and the data of the input's canonical
  projection (strings are compared byte by byte). When no existing record matches in this
  way, the loop stops at that input with the error \<open>record not found\<close> and returns the
  records deleted so far, sending nothing: the inputs before it, when the loop has gone
  through them without error. So \<open>DeleteRecords\<close> returns no record when its first input
  has no match.
\<close>

theorem delete_needs_exact_match:
  "(delete_recordID N zone rr existing \<noteq> '''' \<longrightarrow>
      (\<exists>e\<in>set existing. rec_ID e = delete_recordID N zone rr existing \<and>
         same_name_type_data N zone rr e)) \<and>
   ((\<forall>e\<in>set existing. \<not> same_name_type_data N zone (RR_of N libRec) e) \<longrightarrow>
      DeleteRecords_loop N T zone domainID existing (libRec # records) deleted c =
        ((deleted, Some (RecordNotFound (rr_Name (RR_of N libRec)) (rr_Type (RR_of N libRec))
            (rr_Data (RR_of N libRec)))), c) \<and>
      (DeleteRecords_loop N T zone domainID existing before [] c = ((out, None), c') \<longrightarrow>
         DeleteRecords_loop N T zone domainID existing (before @ libRec # records) [] c =
           ((before, Some (RecordNotFound (rr_Name (RR_of N libRec)) (rr_Type (RR_of N libRec))
               (rr_Data (RR_of N libRec)))), c')) \<and>
      (getDomainID T zone (getClient p) = (Inr domainID, c1) \<and>
       listRecords T domainID c1 = (Inr existing, c2) \<longrightarrow>
         DeleteRecords N T zone (libRec # records) p =
           (([], Some (RecordNotFound (rr_Name (RR_of N libRec)) (rr_Type (RR_of N libRec))
               (rr_Data (RR_of N libRec)))), p\<lparr>client := Some c2\<rparr>)))"
proof (intro conjI impI)
  assume "delete_recordID N zone rr existing \<noteq> ''''"
  then obtain e where "find (same_name_type_data N zone rr) existing = Some e"
    and "delete_recordID N zone rr existing = rec_ID e"
    by (auto simp: delete_recordID_find split: option.splits)
  then show "\<exists>e\<in>set existing. rec_ID e = delete_recordID N zone rr existing \<and>
         same_name_type_data N zone rr e"
    by (auto simp: find_Some_iff)
next
  assume "\<forall>e\<in>set existing. \<not> same_name_type_data N zone (RR_of N libRec) e"
  then have "delete_recordID N zone (RR_of N libRec) existing = ''''"
    by (simp add: delete_recordID_find find_None_no_match [symmetric])
  then show "DeleteRecords_loop N T zone domainID existing (libRec # records) deleted c =
        ((deleted, Some (RecordNotFound (rr_Name (RR_of N libRec)) (rr_Type (RR_of N libRec))
            (rr_Data (RR_of N libRec)))), c)"
    by (rule DeleteRecords_loop_not_found)
next
  assume "\<forall>e\<in>set existing. \<not> same_name_type_data N zone (RR_of N libRec) e"
  then have i: "delete_recordID N zone (RR_of N libRec) existing = ''''"
    by (simp add: delete_recordID_find find_None_no_match [symmetric])
  assume "DeleteRecords_loop N T zone domainID existing before [] c = ((out, None), c')"
  then show "DeleteRecords_loop N T zone domainID existing (before @ libRec # records) [] c =
           ((before, Some (RecordNotFound (rr_Name (RR_of N libRec)) (rr_Type (RR_of N libRec))
               (rr_Data (RR_of N libRec)))), c')"
    using i by (rule DeleteRecords_loop_stops)
next
  assume "\<forall>e\<in>set existing. \<not> same_name_type_data N zone (RR_of N libRec) e"
  then have i: "delete_recordID N zone (RR_of N libRec) existing = ''''"
    by (simp add: delete_recordID_find find_None_no_match [symmetric])
  assume "getDomainID T zone (getClient p) = (Inr domainID, c1) \<and>
       listRecords T domainID c1 = (Inr existing, c2)"
  then show "DeleteRecords N T zone (libRec # records) p =
           (([], Some (RecordNotFound (rr_Name (RR_of N libRec)) (rr_Type (RR_of N libRec))
               (rr_Data (RR_of N libRec)))), p\<lparr>client := Some c2\<rparr>)"
    using DeleteRecords_loop_not_found [OF i, of T domainID records "[]" c2]
    by (simp add: DeleteRecords_def)
qed

text \<open>
  The theorem at a text record \<open>Hello\<close>: the input \<open>Hello\<close> finds its identifier, the
  input \<open>hello\<close> differs in letter case and is not found.
\<close>

theorem delete_needs_exact_match_witness:
  "delete_recordID text_netip ex_zone
      (RR_of text_netip (TXT ''greet.example.com.'' 600000000000 ''Hello'')) [ex_www1, ex_greet]
     = ''9'' \<and>
   same_name_type_data text_netip ex_zone
      (RR_of text_netip (TXT ''greet.example.com.'' 600000000000 ''Hello'')) ex_greet \<and>
   \<not> same_name_type_data text_netip ex_zone
      (RR_of text_netip (TXT ''greet.example.com.'' 600000000000 ''hello'')) ex_www1 \<and>
   \<not> same_name_type_data text_netip ex_zone
      (RR_of text_netip (TXT ''greet.example.com.'' 600000000000 ''hello'')) ex_greet \<and>
   fst (DeleteRecords text_netip (ex_transport [ex_www1, ex_greet]) ex_zone
      [TXT ''greet.example.com.'' 600000000000 ''hello'',
       Address ''www.example.com.'' 600000000000 ''192.0.2.1''] ex_provider)
     = ([], Some (RecordNotFound ''greet.example.com.'' ''TXT'' ''hello''))"
proof -
  let ?T = "ex_transport [ex_www1, ex_greet]"
  let ?H = "TXT ''greet.example.com.'' 600000000000 ''Hello'' :: string Record"
  let ?h = "TXT ''greet.example.com.'' 600000000000 ''hello'' :: string Record"
  let ?a = "Address ''www.example.com.'' 600000000000 ''192.0.2.1'' :: string Record"
  let ?c1 = "snd (getDomainID ?T ex_zone (getClient ex_provider))"
  let ?c2 = "snd (listRecords ?T ''42'' ?c1)"
  have 1: "delete_recordID text_netip ex_zone (RR_of text_netip ?H) [ex_www1, ex_greet] = ''9''"
    by code_simp
  have 2: "same_name_type_data text_netip ex_zone (RR_of text_netip ?H) ex_greet"
    by code_simp
  have 3: "\<not> same_name_type_data text_netip ex_zone (RR_of text_netip ?h) ex_www1"
    "\<not> same_name_type_data text_netip ex_zone (RR_of text_netip ?h) ex_greet"
    by code_simp+
  then have n: "\<forall>e\<in>set [ex_www1, ex_greet].
      \<not> same_name_type_data text_netip ex_zone (RR_of text_netip ?h) e"
    by simp
  have "fst (getDomainID ?T ex_zone (getClient ex_provider)) = Inr ''42''"
    by code_simp
  then have g: "getDomainID ?T ex_zone (getClient ex_provider) = (Inr ''42'', ?c1)"
    by (simp add: prod_eq_iff)
  have "fst (listRecords ?T ''42'' ?c1) = Inr [ex_www1, ex_greet]"
    by (simp add: listRecords_def makeRequest_def post_form_def Let_def ex_transport_def
        body_of_def successCode_def)
  then have l: "listRecords ?T ''42'' ?c1 = (Inr [ex_www1, ex_greet], ?c2)"
    by (simp add: prod_eq_iff)
  have r: "RR_of text_netip ?h
    = \<lparr>rr_Name = ''greet.example.com.'', rr_TTL = 600000000000, rr_Type = ''TXT'', rr_Data = ''hello''\<rparr>"
    by simp
  from delete_needs_exact_match [where N = text_netip and zone = ex_zone and libRec = ?h
      and existing = "[ex_www1, ex_greet]" and T = ?T and p = ex_provider and domainID = "''42''"
      and ?c1.0 = ?c1 and ?c2.0 = ?c2 and records = "[?a]"] n g l
  have "DeleteRecords text_netip ?T ex_zone [?h, ?a] ex_provider =
      (([], Some (RecordNotFound (rr_Name (RR_of text_netip ?h)) (rr_Type (RR_of text_netip ?h))
          (rr_Data (RR_of text_netip ?h)))), ex_provider\<lparr>client := Some ?c2\<rparr>)"
    by blast
  then have 4: "fst (DeleteRecords text_netip ?T ex_zone [?h, ?a] ex_provider)
     = ([], Some (RecordNotFound ''greet.example.com.'' ''TXT'' ''hello''))"
    by (simp only: r fst_conv RR.simps)
  from 1 2 3 4 show ?thesis
    by blast
qed

text \<open>
  C9 (as amended). The empty string is the value of the search without a match. When the
  record at which the search stops (the first existing record that matches the input, by name, type
  and data for \<open>DeleteRecords\<close>, by name and type for \<open>SetRecords\<close>) has the empty string as
  its identifier, \<open>DeleteRecords\<close> reports \<open>record not found\<close> for that input, and the next
  request of \<open>SetRecords\<close> is a \<open>Record.Create\<close>, not a \<open>Record.Modify\<close>.
\<close>

theorem empty_identifier_is_no_match:
  assumes "rec_ID e = ''''"
  shows "(find (same_name_type_data N zone (RR_of N libRec)) existing = Some e \<longrightarrow>
      DeleteRecords_loop N T zone domainID existing (libRec # records) deleted c =
        ((deleted, Some (RecordNotFound (rr_Name (RR_of N libRec)) (rr_Type (RR_of N libRec))
            (rr_Data (RR_of N libRec)))), c)) \<and>
   (find (same_name_type N zone (RR_of N libRec)) existing = Some e \<longrightarrow>
      (\<exists>later.
         sent (snd (SetRecords_loop N T zone domainID existing (libRec # records) acc c)) =
           sent c @ request_of c ''Record.Create''
             (create_params domainID (convertFromLibDNSRecord N libRec zone)) # later \<and>
         (records = [] \<longrightarrow> later = [])))"
proof (intro conjI impI)
  assume "find (same_name_type_data N zone (RR_of N libRec)) existing = Some e"
  with assms have "delete_recordID N zone (RR_of N libRec) existing = ''''"
    by (simp add: delete_recordID_find)
  then show "DeleteRecords_loop N T zone domainID existing (libRec # records) deleted c =
        ((deleted, Some (RecordNotFound (rr_Name (RR_of N libRec)) (rr_Type (RR_of N libRec))
            (rr_Data (RR_of N libRec)))), c)"
    by (rule DeleteRecords_loop_not_found)
next
  assume "find (same_name_type N zone (RR_of N libRec)) existing = Some e"
  with assms have "set_recordID N zone (RR_of N libRec) existing = ''''"
    by (simp add: set_recordID_find)
  then show "\<exists>later.
         sent (snd (SetRecords_loop N T zone domainID existing (libRec # records) acc c)) =
           sent c @ request_of c ''Record.Create''
             (create_params domainID (convertFromLibDNSRecord N libRec zone)) # later \<and>
         (records = [] \<longrightarrow> later = [])"
    by (rule SetRecords_loop_create)
qed

text \<open>The theorem at an existing address record without identifier that matches the input.\<close>

theorem empty_identifier_is_no_match_witness:
  "rec_ID ex_noid = '''' \<and>
   find (same_name_type_data text_netip ex_zone
      (RR_of text_netip (Address ''www.example.com.'' 600000000000 ''192.0.2.1''))) [ex_noid]
     = Some ex_noid \<and>
   find (same_name_type text_netip ex_zone
      (RR_of text_netip (Address ''www.example.com.'' 600000000000 ''192.0.2.1''))) [ex_noid]
     = Some ex_noid \<and>
   DeleteRecords_loop text_netip (ex_transport [ex_noid]) ex_zone ''42'' [ex_noid]
      [Address ''www.example.com.'' 600000000000 ''192.0.2.1''] [] ex_client
     = (([], Some (RecordNotFound ''www.example.com.'' ''A'' ''192.0.2.1'')), ex_client) \<and>
   sent (snd (SetRecords_loop text_netip (ex_transport [ex_noid]) ex_zone ''42'' [ex_noid]
      [Address ''www.example.com.'' 600000000000 ''192.0.2.1''] [] ex_client))
     = [request_of ex_client ''Record.Create'' (create_params ''42''
          (convertFromLibDNSRecord text_netip
             (Address ''www.example.com.'' 600000000000 ''192.0.2.1'') ex_zone))]"
proof -
  let ?a = "Address ''www.example.com.'' 600000000000 ''192.0.2.1'' :: string Record"
  have i: "rec_ID ex_noid = ''''"
    by (simp add: ex_noid_def)
  have "same_name_type_data text_netip ex_zone (RR_of text_netip ?a) ex_noid"
    "same_name_type text_netip ex_zone (RR_of text_netip ?a) ex_noid"
    by code_simp+
  then have f: "find (same_name_type_data text_netip ex_zone (RR_of text_netip ?a)) [ex_noid]
      = Some ex_noid"
    "find (same_name_type text_netip ex_zone (RR_of text_netip ?a)) [ex_noid] = Some ex_noid"
    by simp_all
  have s: "sent ex_client = []"
    by (simp add: ex_client_def newClient_def)
  have r: "RR_of text_netip ?a
    = \<lparr>rr_Name = ''www.example.com.'', rr_TTL = 600000000000, rr_Type = ''A'', rr_Data = ''192.0.2.1''\<rparr>"
    by code_simp
  note th = empty_identifier_is_no_match [OF i, where N = text_netip and zone = ex_zone
      and libRec = ?a and existing = "[ex_noid]" and T = "ex_transport [ex_noid]"
      and domainID = "''42''" and records = "[]" and deleted = "[]" and acc = "[]"
      and c = ex_client]
  from th f have "DeleteRecords_loop text_netip (ex_transport [ex_noid]) ex_zone ''42'' [ex_noid]
      [?a] [] ex_client
     = (([], Some (RecordNotFound (rr_Name (RR_of text_netip ?a)) (rr_Type (RR_of text_netip ?a))
          (rr_Data (RR_of text_netip ?a)))), ex_client)"
    by blast
  then have 1: "DeleteRecords_loop text_netip (ex_transport [ex_noid]) ex_zone ''42'' [ex_noid]
      [?a] [] ex_client
     = (([], Some (RecordNotFound ''www.example.com.'' ''A'' ''192.0.2.1'')), ex_client)"
    by (simp only: r RR.simps)
  from th f obtain later where "sent (snd (SetRecords_loop text_netip (ex_transport [ex_noid])
      ex_zone ''42'' [ex_noid] [?a] [] ex_client))
     = sent ex_client @ request_of ex_client ''Record.Create'' (create_params ''42''
          (convertFromLibDNSRecord text_netip ?a ex_zone)) # later"
    and "later = []"
    by blast
  then have 2: "sent (snd (SetRecords_loop text_netip (ex_transport [ex_noid]) ex_zone
      ''42'' [ex_noid] [?a] [] ex_client))
     = [request_of ex_client ''Record.Create'' (create_params ''42''
          (convertFromLibDNSRecord text_netip ?a ex_zone))]"
    by (simp only: s append_Nil)
  from i f 1 2 show ?thesis
    by blast
qed

text \<open>
  C9 as stated speaks of every existing record with the empty identifier that matches the
  input. When a record with an identifier matches before it, the search stops there: with
  the records 7 and the one without identifier, both matching the input, \<open>DeleteRecords\<close>
  removes record 7 and returns the input without error, and \<open>SetRecords\<close> sends a
  \<open>Record.Modify\<close>.
\<close>

theorem empty_identifier_is_no_match_counterexample:
  "rec_ID ex_noid = '''' \<and>
   same_name_type_data text_netip ex_zone
      (RR_of text_netip (Address ''www.example.com.'' 600000000000 ''192.0.2.1'')) ex_noid \<and>
   fst (DeleteRecords text_netip (ex_transport [ex_www1, ex_noid]) ex_zone
      [Address ''www.example.com.'' 600000000000 ''192.0.2.1''] ex_provider)
     = ([Address ''www.example.com.'' 600000000000 ''192.0.2.1''], None) \<and>
   map req_endpoint (sent (getClient (snd (DeleteRecords text_netip
      (ex_transport [ex_www1, ex_noid]) ex_zone
      [Address ''www.example.com.'' 600000000000 ''192.0.2.1''] ex_provider))))
     = [''Domain.List'', ''Record.List'', ''Record.Remove''] \<and>
   map (\<lambda>r. req_params r ''record_id'') (sent (getClient (snd (DeleteRecords text_netip
      (ex_transport [ex_www1, ex_noid]) ex_zone
      [Address ''www.example.com.'' 600000000000 ''192.0.2.1''] ex_provider))))
     = [None, None, Some ''7''] \<and>
   map req_endpoint (sent (getClient (snd (SetRecords text_netip
      (ex_transport [ex_www1, ex_noid]) ex_zone
      [Address ''www.example.com.'' 600000000000 ''192.0.2.1''] ex_provider))))
     = [''Domain.List'', ''Record.List'', ''Record.Modify'']"
  by code_simp

text \<open>
  C10. The list returned by \<open>DeleteRecords\<close> is a prefix of the input list, made of the
  caller's own records; when the operation returns no error it is the whole input list.
\<close>

theorem deleted_is_prefix_of_input:
  "(\<exists>rest. records = fst (fst (DeleteRecords N T zone records p)) @ rest) \<and>
   (snd (fst (DeleteRecords N T zone records p)) = None \<longrightarrow>
      fst (fst (DeleteRecords N T zone records p)) = records)"
proof -
  obtain r1 c1 where g: "getDomainID T zone (getClient p) = (r1, c1)"
    by (cases "getDomainID T zone (getClient p)")
  show ?thesis
  proof (cases r1)
    case (Inl err)
    with g show ?thesis by (simp add: DeleteRecords_def)
  next
    case (Inr domainID)
    obtain r2 c2 where l: "listRecords T domainID c1 = (r2, c2)"
      by (cases "listRecords T domainID c1")
    show ?thesis
    proof (cases r2)
      case (Inl err)
      with g Inr l show ?thesis by (simp add: DeleteRecords_def)
    next
      case existing: (Inr existing)
      obtain out err c3 where
        d: "DeleteRecords_loop N T zone domainID existing records [] c2 = ((out, err), c3)"
        by (cases "DeleteRecords_loop N T zone domainID existing records [] c2") auto
      from DeleteRecords_loop_prefix [OF d] g Inr l existing d show ?thesis
        by (simp add: DeleteRecords_def)
    qed
  qed
qed


text \<open>The theorem at two inputs that both match an existing record.\<close>

theorem deleted_is_prefix_of_input_witness:
  "snd (fst (DeleteRecords text_netip (ex_transport [ex_www1, ex_greet]) ex_zone
      [TXT ''greet.example.com.'' 600000000000 ''Hello'',
       Address ''www.example.com.'' 600000000000 ''192.0.2.1''] ex_provider)) = None \<and>
   fst (fst (DeleteRecords text_netip (ex_transport [ex_www1, ex_greet]) ex_zone
      [TXT ''greet.example.com.'' 600000000000 ''Hello'',
       Address ''www.example.com.'' 600000000000 ''192.0.2.1''] ex_provider))
     = [TXT ''greet.example.com.'' 600000000000 ''Hello'',
        Address ''www.example.com.'' 600000000000 ''192.0.2.1'']"
proof -
  have e: "snd (fst (DeleteRecords text_netip (ex_transport [ex_www1, ex_greet]) ex_zone
      [TXT ''greet.example.com.'' 600000000000 ''Hello'',
       Address ''www.example.com.'' 600000000000 ''192.0.2.1''] ex_provider)) = None"
    by code_simp
  with deleted_is_prefix_of_input [of
      "[TXT ''greet.example.com.'' 600000000000 ''Hello'',
        Address ''www.example.com.'' 600000000000 ''192.0.2.1'']"
      text_netip "ex_transport [ex_www1, ex_greet]" ex_zone ex_provider]
  show ?thesis
    by blast
qed

end
